theory Spec2Isabelle
  imports Complex_Main
begin

section \<open>Monte Carlo retirement simulator: the two \<open>run_simulation\<close> methods\<close>

text \<open>
  The repository holds two copies of \<open>MonteCarloRetirementSimulator.run_simulation\<close>:
  one in \<open>monte_carlo.py\<close> (prefixed \<open>mc_\<close> below) and one in \<open>app.py\<close> (prefixed
  \<open>app_\<close>). Both are embedded line by line.

  Numbers. Python floats are modelled as the reals and arithmetic is exact, with three
  exceptions where the behaviour of the program depends on the floating-point format:
  the power \<open>**\<close> raises \<open>OverflowError\<close> outside the range of a double, \<open>np.std\<close> rounds
  every operation as binary64 does, and the goal of the runs \<open>mc_run_simulation_goal\<close> and
  \<open>app_run_simulation_goal\<close> may be infinite or NaN. Python ints (\<open>years\<close>,
  \<open>n_simulations\<close>) are \<open>int\<close>.

  Randomness. \<open>np.random.normal(loc, scale, n)\<close> returns \<open>loc + scale * g\<close> for each
  of \<open>n\<close> standard normal variates \<open>g\<close> taken from the process-wide generator. The
  generator is a parameter \<open>gauss\<close>: \<open>gauss month j\<close> is the variate that the call made in
  month \<open>month\<close> uses for column \<open>j\<close> (the loop calls the generator exactly once a month).

  Exceptions. The methods contain no \<open>raise\<close>; every failure comes from Python or
  NumPy and is a value of \<open>py_error\<close>.
\<close>

datatype py_error = ZeroDivisionError | OverflowError | ValueError | TypeError | IndexError

record params =
  current_savings :: real
  monthly_contribution :: real
  years :: int
  annual_return :: real
  annual_volatility :: real
  inflation_rate :: real
  goal_amount :: real
  n_simulations :: int

record percentile_map =
  p5th :: real
  p25th :: real
  p50th :: real
  p75th :: real
  p95th :: real

text \<open>The keys that the two summary dictionaries share.\<close>

record summary =
  success_probability :: real
  future_goal :: real
  median_final_value :: real
  mean_final_value :: real
  std_final_value :: real
  percentiles :: percentile_map
  min_value :: real
  max_value :: real

text \<open>\<open>monte_carlo.py\<close> adds the shortfall keys, \<open>app.py\<close> the simulation count.\<close>

record mc_summary = summary +
  avg_shortfall :: real
  shortfall_probability :: real

record app_summary = summary +
  summary_n_simulations :: int

subsection \<open>Python and NumPy operations\<close>

definition then_do :: "py_error + 'a \<Rightarrow> ('a \<Rightarrow> py_error + 'b) \<Rightarrow> py_error + 'b" where
  "then_do m f = (case m of Inl e \<Rightarrow> Inl e | Inr x \<Rightarrow> f x)"

text \<open>
  The range of a double: a real of magnitude \<open>double_overflow\<close> or more rounds to infinity
  (the largest double is \<open>2 ^ 1024 - 2 ^ 971\<close>, and rounding is to nearest).
\<close>

definition double_overflow :: real where
  "double_overflow = 2 ^ 1024 - 2 ^ 970"

text \<open>
  \<open>x ** k\<close> for a float \<open>x\<close> and an int \<open>k\<close>. Python converts \<open>k\<close> to a double first
  (\<open>OverflowError\<close>, int too large to convert to float), refuses zero to a negative power
  (\<open>ZeroDivisionError\<close>), and raises \<open>OverflowError\<close> when the power leaves the range of a
  double. A power that underflows is not an error.
\<close>

definition float_pow_int :: "real \<Rightarrow> int \<Rightarrow> py_error + real" where
  "float_pow_int x k =
     (if double_overflow \<le> \<bar>real_of_int k\<bar> then Inl OverflowError
      else if x = 0 \<and> k < 0 then Inl ZeroDivisionError
      else if double_overflow \<le> \<bar>x powi k\<bar> then Inl OverflowError
      else Inr (x powi k))"

text \<open>
  \<open>x ** (1/12)\<close> for a float \<open>x\<close>: Python 3 returns a complex number for a negative
  base and a fractional exponent. \<open>None\<close> stands for that complex value; the only thing
  the program does with it is hand it to \<open>np.random.normal\<close>, which rejects it.
\<close>

definition float_pow_frac :: "real \<Rightarrow> real \<Rightarrow> real option" where
  "float_pow_frac x y = (if x < 0 then None else Some (x powr y))"

text \<open>\<open>np.zeros((rows, cols))\<close>: a negative dimension raises \<open>ValueError\<close>.\<close>

definition np_zeros :: "int \<Rightarrow> int \<Rightarrow> py_error + real list list" where
  "np_zeros rows cols =
     (if rows < 0 \<or> cols < 0 then Inl ValueError
      else Inr (replicate (nat rows) (replicate (nat cols) 0)))"

text \<open>\<open>results[0] = v\<close>: broadcast the scalar over row 0.\<close>

definition set_row0 :: "real list list \<Rightarrow> real \<Rightarrow> py_error + real list list" where
  "set_row0 results v =
     (if results = [] then Inl IndexError
      else Inr (results[0 := map (\<lambda>_. v) (results ! 0)]))"

text \<open>
  \<open>np.random.normal(loc, scale, n)\<close>: a complex \<open>loc\<close> cannot be converted to a double
  (\<open>TypeError\<close>), a negative \<open>scale\<close> is refused (\<open>ValueError\<close>); otherwise each of the
  \<open>n\<close> draws is \<open>loc + scale * g\<close>.
\<close>

definition random_normal :: "(nat \<Rightarrow> real) \<Rightarrow> real option \<Rightarrow> real \<Rightarrow> nat \<Rightarrow> py_error + real list" where
  "random_normal g loc scale n =
     (case loc of
        None \<Rightarrow> Inl TypeError
      | Some l \<Rightarrow>
          if scale < 0 then Inl ValueError
          else Inr (map (\<lambda>j. l + scale * g j) [0..<n]))"

text \<open>\<open>a * (1 + r)\<close> on two rows of the same length, element by element.\<close>

definition grow :: "real list \<Rightarrow> real list \<Rightarrow> real list" where
  "grow prev random_returns = map2 (\<lambda>b r. b * (1 + r)) prev random_returns"

text \<open>\<open>row += c\<close>.\<close>

definition add_scalar :: "real list \<Rightarrow> real \<Rightarrow> real list" where
  "add_scalar row c = map (\<lambda>x. x + c) row"

text \<open>\<open>np.sum(a >= g)\<close> and \<open>a[a < g]\<close>.\<close>

definition count_ge :: "real list \<Rightarrow> real \<Rightarrow> nat" where
  "count_ge a g = length (filter (\<lambda>b. b \<ge> g) a)"

definition below :: "real list \<Rightarrow> real \<Rightarrow> real list" where
  "below a g = filter (\<lambda>b. b < g) a"

text \<open>
  \<open>np.percentile(a, q)\<close> with the default method, linear interpolation between order
  statistics: on the sorted sample of size \<open>n\<close> the virtual index is \<open>(n - 1) * (q / 100)\<close>,
  the result lies between the entries at its floor and at the next index (capped at
  \<open>n - 1\<close>). An empty sample raises (\<open>IndexError\<close> since NumPy 1.22, when the entry at the
  virtual index is read); a \<open>q\<close> outside \<open>[0, 100]\<close> raises \<open>ValueError\<close>.
\<close>

definition lerp_percentile :: "real list \<Rightarrow> real \<Rightarrow> real" where
  "lerp_percentile a q =
     (let s = sort a;
          n = length s;
          virtual_index = real (n - 1) * (q / 100);
          previous_index = nat \<lfloor>virtual_index\<rfloor>;
          next_index = min (previous_index + 1) (n - 1);
          gamma = virtual_index - real previous_index
      in s ! previous_index + (s ! next_index - s ! previous_index) * gamma)"

definition np_percentile :: "real list \<Rightarrow> real \<Rightarrow> py_error + real" where
  "np_percentile a q =
     (if q < 0 \<or> 100 < q then Inl ValueError
      else if a = [] then Inl IndexError
      else Inr (lerp_percentile a q))"

text \<open>\<open>np.mean\<close>, in exact arithmetic.\<close>

definition np_mean :: "real list \<Rightarrow> real" where
  "np_mean a = sum_list a / real (length a)"

text \<open>
  \<open>np.std\<close> (population standard deviation) is the one operation modelled with the
  rounding of binary64, because whether a standard deviation is exactly zero is decided
  by rounding. \<open>round64\<close> rounds a real to the nearest double, ties to the even
  significand: 53 significant bits at the exponent \<open>binade x\<close>, which is that of the
  subnormal numbers below \<open>2 ^ -1022\<close>. A result beyond the range of a double would be
  infinite and is outside the model.
\<close>

definition round_half_even :: "real \<Rightarrow> int" where
  "round_half_even x =
     (let f = \<lfloor>x\<rfloor>; d = x - of_int f
      in if d < 1 / 2 then f else if 1 / 2 < d then f + 1 else if even f then f else f + 1)"

definition binade :: "real \<Rightarrow> int" where
  "binade x = max \<lfloor>log 2 \<bar>x\<bar>\<rfloor> (- 1022)"

definition round64 :: "real \<Rightarrow> real" where
  "round64 x =
     (if x = 0 then 0
      else of_int (round_half_even (x / 2 powi (binade x - 52))) * 2 powi (binade x - 52))"

definition float_add :: "real \<Rightarrow> real \<Rightarrow> real" where
  "float_add a b = round64 (a + b)"

text \<open>
  The sum that \<open>np.add.reduce\<close> computes over a contiguous array of doubles (NumPy's
  pairwise summation): fewer than 8 elements are added from left to right; up to 128
  elements go through eight accumulators, \<open>r k\<close> collecting the elements at the indices
  \<open>k, k + 8, k + 16, ...\<close> of the leading multiple of 8, which are then combined as a
  balanced tree before the remaining elements are added; a longer array is split at half
  its length, rounded down to a multiple of 8.
\<close>

function pairwise_sum :: "real list \<Rightarrow> real" where
  "pairwise_sum a =
     (let n = length a
      in if n < 8 then foldl float_add 0 a
         else if n \<le> 128 then
           (let m = n - n mod 8;
                r = (\<lambda>k. foldl float_add (a ! k) (map (\<lambda>t. a ! (k + 8 * t)) [1..<m div 8]));
                res = float_add (float_add (float_add (r 0) (r 1)) (float_add (r 2) (r 3)))
                        (float_add (float_add (r 4) (r 5)) (float_add (r 6) (r 7)))
            in foldl float_add res (drop m a))
         else
           (let n2 = n div 2 - (n div 2) mod 8
            in float_add (pairwise_sum (take n2 a)) (pairwise_sum (drop n2 a))))"
  by pat_completeness auto
termination
  by (relation "measure length") auto

text \<open>The mean inside \<open>np.std\<close>: the sum above, divided by the number of elements.\<close>

definition float_mean :: "real list \<Rightarrow> real" where
  "float_mean a = round64 (pairwise_sum a / real (length a))"

text \<open>
  \<open>np.std(a)\<close>: \<open>x = a - mean(a)\<close>, \<open>x = x * x\<close>, the mean of \<open>x\<close>, its square
  root, every operation rounded.
\<close>

definition np_std :: "real list \<Rightarrow> real" where
  "np_std a =
     (let arrmean = float_mean a;
          x = map (\<lambda>v. round64 (v - arrmean)) a;
          x2 = map (\<lambda>d. round64 (d * d)) x
      in round64 (sqrt (float_mean x2)))"

text \<open>\<open>np.min\<close> and \<open>np.max\<close> raise \<open>ValueError\<close> on an empty array.\<close>

definition np_min :: "real list \<Rightarrow> py_error + real" where
  "np_min a = (if a = [] then Inl ValueError else Inr (Min (set a)))"

definition np_max :: "real list \<Rightarrow> py_error + real" where
  "np_max a = (if a = [] then Inl ValueError else Inr (Max (set a)))"

text \<open>The dictionary of the five percentiles, built in the order of the source.\<close>

definition percentile_dict :: "real list \<Rightarrow> py_error + percentile_map" where
  "percentile_dict final_values =
     then_do (np_percentile final_values 5) (\<lambda>v5.
     then_do (np_percentile final_values 25) (\<lambda>v25.
     then_do (np_percentile final_values 50) (\<lambda>v50.
     then_do (np_percentile final_values 75) (\<lambda>v75.
     then_do (np_percentile final_values 95) (\<lambda>v95.
       Inr \<lparr>p5th = v5, p25th = v25, p50th = v50, p75th = v75, p95th = v95\<rparr>)))))"

subsection \<open>\<open>monte_carlo.py\<close>\<close>

text \<open>
  The month loop, lines 74 to 83: \<open>for month in range(1, months + 1)\<close>, the matrix
  updated in place. The contribution is added unless \<open>month % 12 == 0\<close>.
\<close>

fun mc_months ::
  "(nat \<Rightarrow> nat \<Rightarrow> real) \<Rightarrow> real option \<Rightarrow> real \<Rightarrow> real \<Rightarrow> nat \<Rightarrow> nat list \<Rightarrow>
     real list list \<Rightarrow> py_error + real list list" where
  "mc_months gauss monthly_return monthly_volatility contribution n [] results = Inr results"
| "mc_months gauss monthly_return monthly_volatility contribution n (month # rest) results =
     then_do (random_normal (gauss month) monthly_return monthly_volatility n)
       (\<lambda>random_returns.
          let grown = grow (results ! (month - 1)) random_returns;
              row = (if month mod 12 \<noteq> 0 then add_scalar grown contribution else grown)
          in mc_months gauss monthly_return monthly_volatility contribution n rest
               (results[month := row]))"

text \<open>The statistics, lines 90 to 121, on the last row of the matrix.\<close>

definition mc_statistics :: "real \<Rightarrow> int \<Rightarrow> real list \<Rightarrow> py_error + mc_summary" where
  "mc_statistics goal n final_values =
     (let success_count = count_ge final_values goal;
          success_prob = (real success_count / real_of_int n) * 100
      in then_do (percentile_dict final_values) (\<lambda>pcts.
         let shortfall_amount = map (\<lambda>b. goal - b) (below final_values goal);
             avg = (if length shortfall_amount > 0 then np_mean shortfall_amount else 0)
         in then_do (np_min final_values) (\<lambda>lo.
            then_do (np_max final_values) (\<lambda>hi.
              Inr \<lparr>success_probability = success_prob,
                   future_goal = goal,
                   median_final_value = p50th pcts,
                   mean_final_value = np_mean final_values,
                   std_final_value = np_std final_values,
                   percentiles = pcts,
                   min_value = lo,
                   max_value = hi,
                   avg_shortfall = avg,
                   shortfall_probability = 100 - success_prob\<rparr>))))"

text \<open>
  \<open>run_simulation\<close> of \<open>monte_carlo.py\<close>. The result is the matrix stored in
  \<open>self.results\<close> together with the returned summary.
\<close>

definition mc_run_simulation ::
  "(nat \<Rightarrow> nat \<Rightarrow> real) \<Rightarrow> params \<Rightarrow> py_error + (real list list \<times> mc_summary)" where
  "mc_run_simulation gauss p =
     (let annual_return' = annual_return p / 100;
          annual_volatility' = annual_volatility p / 100;
          inflation_rate' = inflation_rate p / 100
      in then_do (float_pow_int (1 + inflation_rate') (years p)) (\<lambda>inflation_factor.
         let goal = goal_amount p * inflation_factor;
             months = years p * 12;
             monthly_return = map_option (\<lambda>r. r - 1) (float_pow_frac (1 + annual_return') (1 / 12));
             monthly_volatility = annual_volatility' / sqrt 12
         in then_do (np_zeros (months + 1) (n_simulations p)) (\<lambda>zeros.
            then_do (set_row0 zeros (current_savings p)) (\<lambda>results0.
            then_do (mc_months gauss monthly_return monthly_volatility (monthly_contribution p)
                       (nat (n_simulations p)) [1 ..< nat (months + 1)] results0) (\<lambda>results.
            then_do (mc_statistics goal (n_simulations p) (last results)) (\<lambda>s.
              Inr (results, s)))))))"

subsection \<open>\<open>app.py\<close>\<close>

text \<open>The month loop, lines 51 to 54: the contribution is added in every month.\<close>

fun app_months ::
  "(nat \<Rightarrow> nat \<Rightarrow> real) \<Rightarrow> real option \<Rightarrow> real \<Rightarrow> real \<Rightarrow> nat \<Rightarrow> nat list \<Rightarrow>
     real list list \<Rightarrow> py_error + real list list" where
  "app_months gauss monthly_return monthly_volatility contribution n [] results = Inr results"
| "app_months gauss monthly_return monthly_volatility contribution n (month # rest) results =
     then_do (random_normal (gauss month) monthly_return monthly_volatility n)
       (\<lambda>random_returns.
          let grown = grow (results ! (month - 1)) random_returns;
              row = add_scalar grown contribution
          in app_months gauss monthly_return monthly_volatility contribution n rest
               (results[month := row]))"

text \<open>The statistics, lines 59 to 83.\<close>

definition app_statistics :: "real \<Rightarrow> int \<Rightarrow> real list \<Rightarrow> py_error + app_summary" where
  "app_statistics goal n final_values =
     (let success_count = count_ge final_values goal;
          success_prob = (real success_count / real_of_int n) * 100
      in then_do (percentile_dict final_values) (\<lambda>pcts.
         let mean_v = np_mean final_values;
             std_v = np_std final_values
         in then_do (np_min final_values) (\<lambda>lo.
            then_do (np_max final_values) (\<lambda>hi.
              Inr \<lparr>success_probability = success_prob,
                   future_goal = goal,
                   median_final_value = p50th pcts,
                   mean_final_value = mean_v,
                   std_final_value = std_v,
                   percentiles = pcts,
                   min_value = lo,
                   max_value = hi,
                   summary_n_simulations = n\<rparr>))))"

definition app_run_simulation ::
  "(nat \<Rightarrow> nat \<Rightarrow> real) \<Rightarrow> params \<Rightarrow> py_error + (real list list \<times> app_summary)" where
  "app_run_simulation gauss p =
     (let annual_return' = annual_return p / 100;
          annual_volatility' = annual_volatility p / 100;
          inflation_rate' = inflation_rate p / 100
      in then_do (float_pow_int (1 + inflation_rate') (years p)) (\<lambda>inflation_factor.
         let goal = goal_amount p * inflation_factor;
             months = years p * 12;
             monthly_return = map_option (\<lambda>r. r - 1) (float_pow_frac (1 + annual_return') (1 / 12));
             monthly_volatility = annual_volatility' / sqrt 12
         in then_do (np_zeros (months + 1) (n_simulations p)) (\<lambda>zeros.
            then_do (set_row0 zeros (current_savings p)) (\<lambda>results0.
            then_do (app_months gauss monthly_return monthly_volatility (monthly_contribution p)
                       (nat (n_simulations p)) [1 ..< nat (months + 1)] results0) (\<lambda>results.
            then_do (app_statistics goal (n_simulations p) (last results)) (\<lambda>s.
              Inr (results, s)))))))"

subsection \<open>A goal that is not finite\<close>

text \<open>
  \<open>goal_amount\<close> is a Python float and may be infinite or NaN. It enters the run in three
  places only: the product with the inflation factor, the two comparisons with the final
  balances, and the shortfall amounts. \<open>mc_run_simulation_goal gauss p g\<close> is
  \<open>run_simulation\<close> of \<open>monte_carlo.py\<close> on the parameters \<open>p\<close> with the float \<open>g\<close> passed as
  \<open>goal_amount\<close> (the field \<open>goal_amount p\<close> is not read), and likewise for \<open>app.py\<close>.
  Arithmetic on finite values stays exact.
\<close>

datatype pyfloat = Finite real | PosInf | NegInf | NaN

text \<open>\<open>g * f\<close> for a float \<open>g\<close> and a finite \<open>f\<close>.\<close>

fun float_times :: "pyfloat \<Rightarrow> real \<Rightarrow> pyfloat" where
  "float_times (Finite a) f = Finite (a * f)"
| "float_times PosInf f = (if 0 < f then PosInf else if f < 0 then NegInf else NaN)"
| "float_times NegInf f = (if 0 < f then NegInf else if f < 0 then PosInf else NaN)"
| "float_times NaN f = NaN"

text \<open>\<open>b >= g\<close> and \<open>b < g\<close> for a finite \<open>b\<close>: every comparison with NaN is false.\<close>

fun reaches :: "pyfloat \<Rightarrow> real \<Rightarrow> bool" where
  "reaches (Finite g) b = (g \<le> b)"
| "reaches PosInf b = False"
| "reaches NegInf b = True"
| "reaches NaN b = False"

fun falls_short :: "pyfloat \<Rightarrow> real \<Rightarrow> bool" where
  "falls_short (Finite g) b = (b < g)"
| "falls_short PosInf b = True"
| "falls_short NegInf b = False"
| "falls_short NaN b = False"

text \<open>\<open>g - b\<close> for a finite \<open>b\<close>.\<close>

fun float_minus :: "pyfloat \<Rightarrow> real \<Rightarrow> pyfloat" where
  "float_minus (Finite g) b = Finite (g - b)"
| "float_minus PosInf b = PosInf"
| "float_minus NegInf b = NegInf"
| "float_minus NaN b = NaN"

text \<open>\<open>np.mean\<close> of floats: the sum, divided by the positive number of elements.\<close>

fun float_plus :: "pyfloat \<Rightarrow> pyfloat \<Rightarrow> pyfloat" where
  "float_plus (Finite a) (Finite b) = Finite (a + b)"
| "float_plus NaN y = NaN"
| "float_plus x NaN = NaN"
| "float_plus PosInf NegInf = NaN"
| "float_plus NegInf PosInf = NaN"
| "float_plus PosInf y = PosInf"
| "float_plus x PosInf = PosInf"
| "float_plus NegInf y = NegInf"
| "float_plus x NegInf = NegInf"

fun float_over :: "pyfloat \<Rightarrow> nat \<Rightarrow> pyfloat" where
  "float_over (Finite a) n =
     (if n = 0 then (if a = 0 then NaN else if 0 < a then PosInf else NegInf)
      else Finite (a / real n))"
| "float_over x n = x"

definition np_mean_floats :: "pyfloat list \<Rightarrow> pyfloat" where
  "np_mean_floats a = float_over (foldl float_plus (Finite 0) a) (length a)"

record goal_summary =
  gs_success_probability :: real
  gs_future_goal :: pyfloat
  gs_median_final_value :: real
  gs_mean_final_value :: real
  gs_std_final_value :: real
  gs_percentiles :: percentile_map
  gs_min_value :: real
  gs_max_value :: real

record mc_goal_summary = goal_summary +
  gs_avg_shortfall :: pyfloat
  gs_shortfall_probability :: real

record app_goal_summary = goal_summary +
  gs_n_simulations :: int

definition mc_statistics_goal :: "pyfloat \<Rightarrow> int \<Rightarrow> real list \<Rightarrow> py_error + mc_goal_summary" where
  "mc_statistics_goal goal n final_values =
     (let success_count = length (filter (reaches goal) final_values);
          success_prob = (real success_count / real_of_int n) * 100
      in then_do (percentile_dict final_values) (\<lambda>pcts.
         let shortfall_amount = map (float_minus goal) (filter (falls_short goal) final_values);
             avg = (if length shortfall_amount > 0 then np_mean_floats shortfall_amount
                    else Finite 0)
         in then_do (np_min final_values) (\<lambda>lo.
            then_do (np_max final_values) (\<lambda>hi.
              Inr \<lparr>gs_success_probability = success_prob,
                   gs_future_goal = goal,
                   gs_median_final_value = p50th pcts,
                   gs_mean_final_value = np_mean final_values,
                   gs_std_final_value = np_std final_values,
                   gs_percentiles = pcts,
                   gs_min_value = lo,
                   gs_max_value = hi,
                   gs_avg_shortfall = avg,
                   gs_shortfall_probability = 100 - success_prob\<rparr>))))"

definition mc_run_simulation_goal ::
  "(nat \<Rightarrow> nat \<Rightarrow> real) \<Rightarrow> params \<Rightarrow> pyfloat \<Rightarrow>
     py_error + (real list list \<times> mc_goal_summary)" where
  "mc_run_simulation_goal gauss p g =
     (let annual_return' = annual_return p / 100;
          annual_volatility' = annual_volatility p / 100;
          inflation_rate' = inflation_rate p / 100
      in then_do (float_pow_int (1 + inflation_rate') (years p)) (\<lambda>inflation_factor.
         let goal = float_times g inflation_factor;
             months = years p * 12;
             monthly_return = map_option (\<lambda>r. r - 1) (float_pow_frac (1 + annual_return') (1 / 12));
             monthly_volatility = annual_volatility' / sqrt 12
         in then_do (np_zeros (months + 1) (n_simulations p)) (\<lambda>zeros.
            then_do (set_row0 zeros (current_savings p)) (\<lambda>results0.
            then_do (mc_months gauss monthly_return monthly_volatility (monthly_contribution p)
                       (nat (n_simulations p)) [1 ..< nat (months + 1)] results0) (\<lambda>results.
            then_do (mc_statistics_goal goal (n_simulations p) (last results)) (\<lambda>s.
              Inr (results, s)))))))"

definition app_statistics_goal :: "pyfloat \<Rightarrow> int \<Rightarrow> real list \<Rightarrow> py_error + app_goal_summary" where
  "app_statistics_goal goal n final_values =
     (let success_count = length (filter (reaches goal) final_values);
          success_prob = (real success_count / real_of_int n) * 100
      in then_do (percentile_dict final_values) (\<lambda>pcts.
         let mean_v = np_mean final_values;
             std_v = np_std final_values
         in then_do (np_min final_values) (\<lambda>lo.
            then_do (np_max final_values) (\<lambda>hi.
              Inr \<lparr>gs_success_probability = success_prob,
                   gs_future_goal = goal,
                   gs_median_final_value = p50th pcts,
                   gs_mean_final_value = mean_v,
                   gs_std_final_value = std_v,
                   gs_percentiles = pcts,
                   gs_min_value = lo,
                   gs_max_value = hi,
                   gs_n_simulations = n\<rparr>))))"

definition app_run_simulation_goal ::
  "(nat \<Rightarrow> nat \<Rightarrow> real) \<Rightarrow> params \<Rightarrow> pyfloat \<Rightarrow>
     py_error + (real list list \<times> app_goal_summary)" where
  "app_run_simulation_goal gauss p g =
     (let annual_return' = annual_return p / 100;
          annual_volatility' = annual_volatility p / 100;
          inflation_rate' = inflation_rate p / 100
      in then_do (float_pow_int (1 + inflation_rate') (years p)) (\<lambda>inflation_factor.
         let goal = float_times g inflation_factor;
             months = years p * 12;
             monthly_return = map_option (\<lambda>r. r - 1) (float_pow_frac (1 + annual_return') (1 / 12));
             monthly_volatility = annual_volatility' / sqrt 12
         in then_do (np_zeros (months + 1) (n_simulations p)) (\<lambda>zeros.
            then_do (set_row0 zeros (current_savings p)) (\<lambda>results0.
            then_do (app_months gauss monthly_return monthly_volatility (monthly_contribution p)
                       (nat (n_simulations p)) [1 ..< nat (months + 1)] results0) (\<lambda>results.
            then_do (app_statistics_goal goal (n_simulations p) (last results)) (\<lambda>s.
              Inr (results, s)))))))"

subsection \<open>The two month loops as one recurrence\<close>

text \<open>
  Auxiliary definitions for the proofs. The two loops differ only in the test that guards
  the contribution, so \<open>gen_months\<close> takes that test as the predicate \<open>adds\<close>, and
  \<open>balance\<close> is the recurrence that either loop computes for column \<open>j\<close>: the balance
  of month \<open>m\<close> is the one of month \<open>m - 1\<close> times one plus the draw, plus the
  contribution in the months where \<open>adds\<close> holds. \<open>trajectory\<close> is the matrix of the
  first \<open>rows\<close> months.
\<close>

fun balance :: "(nat \<Rightarrow> bool) \<Rightarrow> (nat \<Rightarrow> nat \<Rightarrow> real) \<Rightarrow> real \<Rightarrow> real \<Rightarrow> real \<Rightarrow> real \<Rightarrow> nat \<Rightarrow> nat \<Rightarrow> real" where
  "balance adds gauss l s c v 0 j = v"
| "balance adds gauss l s c v (Suc m) j =
     balance adds gauss l s c v m j * (1 + (l + s * gauss (Suc m) j)) + (if adds (Suc m) then c else 0)"

definition trajectory :: "(nat \<Rightarrow> bool) \<Rightarrow> (nat \<Rightarrow> nat \<Rightarrow> real) \<Rightarrow> real \<Rightarrow> real \<Rightarrow> real \<Rightarrow> real \<Rightarrow> nat \<Rightarrow> nat \<Rightarrow> real list list" where
  "trajectory adds gauss l s c v rows n = map (\<lambda>m. map (balance adds gauss l s c v m) [0..<n]) [0..<rows]"

fun gen_months ::
  "(nat \<Rightarrow> bool) \<Rightarrow> (nat \<Rightarrow> nat \<Rightarrow> real) \<Rightarrow> real option \<Rightarrow> real \<Rightarrow> real \<Rightarrow> nat \<Rightarrow> nat list \<Rightarrow>
     real list list \<Rightarrow> py_error + real list list" where
  "gen_months adds gauss monthly_return monthly_volatility contribution n [] results = Inr results"
| "gen_months adds gauss monthly_return monthly_volatility contribution n (month # rest) results =
     then_do (random_normal (gauss month) monthly_return monthly_volatility n)
       (\<lambda>random_returns.
          let grown = grow (results ! (month - 1)) random_returns;
              row = (if adds month then add_scalar grown contribution else grown)
          in gen_months adds gauss monthly_return monthly_volatility contribution n rest
               (results[month := row]))"

text \<open>
  Everything the two methods do before the statistics is the same up to \<open>adds\<close>:
  \<open>gen_paths\<close> is the allocation, row 0 and the loop, \<open>gen_run\<close> the whole method with
  the statistics passed in as a function of the inflation factor. \<open>run_trajectory\<close> is the matrix a run that completes stores,
  and \<open>completes\<close> is the condition under which a run raises nothing.
\<close>

definition gen_paths ::
  "(nat \<Rightarrow> bool) \<Rightarrow> (nat \<Rightarrow> nat \<Rightarrow> real) \<Rightarrow> real option \<Rightarrow> real \<Rightarrow> real \<Rightarrow> real \<Rightarrow> int \<Rightarrow> int \<Rightarrow>
     py_error + real list list" where
  "gen_paths adds gauss monthly_return monthly_volatility contribution savings months n =
     then_do (np_zeros (months + 1) n) (\<lambda>zeros.
     then_do (set_row0 zeros savings) (\<lambda>results0.
       gen_months adds gauss monthly_return monthly_volatility contribution (nat n)
         [1 ..< nat (months + 1)] results0))"

definition gen_run ::
  "(nat \<Rightarrow> bool) \<Rightarrow> (real \<Rightarrow> int \<Rightarrow> real list \<Rightarrow> py_error + 's) \<Rightarrow> (nat \<Rightarrow> nat \<Rightarrow> real) \<Rightarrow> params \<Rightarrow>
     py_error + (real list list \<times> 's)" where
  "gen_run adds stats gauss p =
     then_do (float_pow_int (1 + inflation_rate p / 100) (years p)) (\<lambda>inflation_factor.
     then_do (gen_paths adds gauss
                (map_option (\<lambda>r. r - 1) (float_pow_frac (1 + annual_return p / 100) (1 / 12)))
                (annual_volatility p / 100 / sqrt 12) (monthly_contribution p) (current_savings p)
                (years p * 12) (n_simulations p)) (\<lambda>results.
     then_do (stats inflation_factor (n_simulations p) (last results)) (\<lambda>s.
       Inr (results, s))))"

definition run_trajectory :: "(nat \<Rightarrow> bool) \<Rightarrow> (nat \<Rightarrow> nat \<Rightarrow> real) \<Rightarrow> params \<Rightarrow> real list list" where
  "run_trajectory adds gauss p =
     trajectory adds gauss ((1 + annual_return p / 100) powr (1 / 12) - 1)
       (annual_volatility p / 100 / sqrt 12) (monthly_contribution p) (current_savings p)
       (nat (years p * 12) + 1) (nat (n_simulations p))"

definition completes :: "params \<Rightarrow> bool" where
  "completes p \<longleftrightarrow>
     0 \<le> years p \<and> 1 \<le> n_simulations p \<and>
     real_of_int (years p) < double_overflow \<and>
     \<bar>(1 + inflation_rate p / 100) ^ nat (years p)\<bar> < double_overflow \<and>
     (1 \<le> years p \<longrightarrow> -100 \<le> annual_return p \<and> 0 \<le> annual_volatility p)"

text \<open>
  The shape of the matrix: \<open>years * 12 + 1\<close> rows of \<open>n_simulations\<close> columns, row 0
  holding \<open>current_savings\<close> throughout.
\<close>

definition has_shape :: "params \<Rightarrow> real list list \<Rightarrow> bool" where
  "has_shape p results \<longleftrightarrow>
     int (length results) = years p * 12 + 1 \<and>
     (\<forall>row\<in>set results. int (length row) = n_simulations p) \<and>
     (\<forall>x\<in>set (results ! 0). x = current_savings p)"

text \<open>Two generators for concrete runs: all variates zero, and all variates one.\<close>

definition zero_gauss :: "nat \<Rightarrow> nat \<Rightarrow> real" where
  "zero_gauss month j = 0"

definition unit_gauss :: "nat \<Rightarrow> nat \<Rightarrow> real" where
  "unit_gauss month j = 1"

text \<open>The double nearest to one tenth, the value of the Python literal \<open>0.1\<close>.\<close>

definition tenth :: real where
  "tenth = 3602879701896397 / 2 ^ 55"

section \<open>Properties\<close>

subsection \<open>The error monad and the month loops\<close>

lemma then_do_Inr [simp]: "then_do (Inr x) f = f x"
  by (simp add: then_do_def)

lemma then_do_Inl [simp]: "then_do (Inl e) f = Inl e"
  by (simp add: then_do_def)

lemma mc_months_gen: "mc_months gauss mr mv c n ms results = gen_months (\<lambda>m. m mod 12 \<noteq> 0) gauss mr mv c n ms results"
  by (induction ms arbitrary: results) (simp_all add: Let_def)

lemma app_months_gen: "app_months gauss mr mv c n ms results = gen_months (\<lambda>m. True) gauss mr mv c n ms results"
  by (induction ms arbitrary: results) (simp_all add: Let_def)

lemma month_row:
  assumes "0 \<le> s" "0 < a" "prev = map (balance adds gauss l s c v (a - 1)) [0..<n]"
  shows "random_normal (gauss a) (Some l) s n = Inr (map (\<lambda>j. l + s * gauss a j) [0..<n])"
    and "(if adds a then add_scalar (grow prev (map (\<lambda>j. l + s * gauss a j) [0..<n])) c
          else grow prev (map (\<lambda>j. l + s * gauss a j) [0..<n]))
         = map (balance adds gauss l s c v a) [0..<n]"
proof -
  show "random_normal (gauss a) (Some l) s n = Inr (map (\<lambda>j. l + s * gauss a j) [0..<n])"
    using assms(1) by (simp add: random_normal_def)
  obtain k where k: "a = Suc k" using assms(2) by (cases a) auto
  have g: "grow prev (map (\<lambda>j. l + s * gauss a j) [0..<n])
           = map (\<lambda>j. balance adds gauss l s c v k j * (1 + (l + s * gauss a j))) [0..<n]"
    unfolding grow_def assms(3) k
    by (rule nth_equalityI) simp_all
  show "(if adds a then add_scalar (grow prev (map (\<lambda>j. l + s * gauss a j) [0..<n])) c
          else grow prev (map (\<lambda>j. l + s * gauss a j) [0..<n]))
         = map (balance adds gauss l s c v a) [0..<n]"
    unfolding g by (simp add: add_scalar_def k)
qed

lemma gen_months_upt:
  assumes "0 \<le> s" "0 < a" "a \<le> b" "b \<le> length results"
    and "\<forall>i<a. results ! i = map (balance adds gauss l s c v i) [0..<n]"
  shows "gen_months adds gauss (Some l) s c n [a..<b] results
         = Inr (trajectory adds gauss l s c v b n @ drop b results)"
  using assms
proof (induction "b - a" arbitrary: a results)
  case 0
  then have ab: "a = b" by simp
  have "take b results = trajectory adds gauss l s c v b n"
    unfolding trajectory_def using 0 ab
    by (intro nth_equalityI) simp_all
  then have "results = trajectory adds gauss l s c v b n @ drop b results"
    by (metis append_take_drop_id)
  then show ?case using ab by simp
next
  case (Suc d)
  then have lt: "a < b" by simp
  let ?row = "map (balance adds gauss l s c v a) [0..<n]"
  have prev: "results ! (a - 1) = map (balance adds gauss l s c v (a - 1)) [0..<n]"
    using Suc.prems by simp
  have step: "gen_months adds gauss (Some l) s c n [a..<b] results
              = gen_months adds gauss (Some l) s c n [Suc a..<b] (results[a := ?row])"
  proof -
    have "[a..<b] = a # [Suc a..<b]" using lt by (simp add: upt_conv_Cons)
    then show ?thesis
      by (simp only: gen_months.simps Let_def then_do_Inr
            month_row[OF Suc.prems(1) Suc.prems(2) prev])
  qed
  have inv: "\<forall>i<Suc a. (results[a := ?row]) ! i = map (balance adds gauss l s c v i) [0..<n]"
    using Suc.prems lt by (auto simp: nth_list_update less_Suc_eq)
  have "gen_months adds gauss (Some l) s c n [Suc a..<b] (results[a := ?row])
        = Inr (trajectory adds gauss l s c v b n @ drop b (results[a := ?row]))"
    using Suc.hyps Suc.prems lt inv
    by (intro Suc.hyps(1)) simp_all
  moreover have "drop b (results[a := ?row]) = drop b results"
    using lt by simp
  ultimately show ?case using step by simp
qed

subsection \<open>The path generator and the statistics\<close>

lemma then_do_assoc: "then_do (then_do m f) g = then_do m (\<lambda>x. then_do (f x) g)"
  by (cases m) simp_all

lemma balance_row0: "map (balance adds gauss l s c v 0) [0..<n] = replicate n v"
  by (rule nth_equalityI) simp_all

lemma gen_paths_negative:
  "months < -1 \<or> n < 0 \<Longrightarrow> gen_paths adds gauss mr mv c v months n = Inl ValueError"
  by (auto simp: gen_paths_def np_zeros_def)

lemma gen_paths_no_months:
  assumes "0 \<le> n"
  shows "gen_paths adds gauss mr mv c v 0 n = Inr (trajectory adds gauss l s c v 1 (nat n))"
  using assms
  by (simp add: gen_paths_def np_zeros_def set_row0_def trajectory_def balance_row0 map_replicate_const)

lemma gen_paths_complex:
  assumes "0 < months" "0 \<le> n"
  shows "gen_paths adds gauss None mv c v months n = Inl TypeError"
proof -
  have "[1 ..< nat (months + 1)] = 1 # [Suc 1 ..< nat (months + 1)]"
    using assms(1) by (simp add: upt_conv_Cons)
  then show ?thesis
    using assms by (simp add: gen_paths_def np_zeros_def set_row0_def random_normal_def)
qed

lemma gen_paths_negative_scale:
  assumes "0 < months" "0 \<le> n" "mv < 0"
  shows "gen_paths adds gauss (Some l) mv c v months n = Inl ValueError"
proof -
  have "[1 ..< nat (months + 1)] = 1 # [Suc 1 ..< nat (months + 1)]"
    using assms(1) by (simp add: upt_conv_Cons)
  then show ?thesis
    using assms by (simp add: gen_paths_def np_zeros_def set_row0_def random_normal_def)
qed

lemma gen_paths_trajectory:
  assumes "0 \<le> months" "0 \<le> n" "0 \<le> mv"
  shows "gen_paths adds gauss (Some l) mv c v months n
         = Inr (trajectory adds gauss l mv c v (nat months + 1) (nat n))"
proof -
  let ?r0 = "(replicate (nat (months + 1)) (replicate (nat n) (0::real)))[0 := replicate (nat n) v]"
  have rows: "nat (months + 1) = nat months + 1" using assms(1) by simp
  have "gen_months adds gauss (Some l) mv c (nat n) [1 ..< nat months + 1] ?r0
        = Inr (trajectory adds gauss l mv c v (nat months + 1) (nat n) @ drop (nat months + 1) ?r0)"
    by (rule gen_months_upt) (use assms rows in \<open>simp_all add: balance_row0 map_replicate_const\<close>)
  moreover have "drop (nat months + 1) ?r0 = []" using rows by simp
  ultimately show ?thesis
    using assms rows
    by (simp add: gen_paths_def np_zeros_def set_row0_def)
qed

lemma mc_run_simulation_paths:
  "mc_run_simulation gauss p =
     then_do (float_pow_int (1 + inflation_rate p / 100) (years p)) (\<lambda>inflation_factor.
     then_do (gen_paths (\<lambda>m. m mod 12 \<noteq> 0) gauss
                (map_option (\<lambda>r. r - 1) (float_pow_frac (1 + annual_return p / 100) (1 / 12)))
                (annual_volatility p / 100 / sqrt 12) (monthly_contribution p) (current_savings p)
                (years p * 12) (n_simulations p)) (\<lambda>results.
     then_do (mc_statistics (goal_amount p * inflation_factor) (n_simulations p) (last results)) (\<lambda>s.
       Inr (results, s))))"
  by (simp add: mc_run_simulation_def gen_paths_def Let_def then_do_assoc mc_months_gen)

lemma app_run_simulation_paths:
  "app_run_simulation gauss p =
     then_do (float_pow_int (1 + inflation_rate p / 100) (years p)) (\<lambda>inflation_factor.
     then_do (gen_paths (\<lambda>m. True) gauss
                (map_option (\<lambda>r. r - 1) (float_pow_frac (1 + annual_return p / 100) (1 / 12)))
                (annual_volatility p / 100 / sqrt 12) (monthly_contribution p) (current_savings p)
                (years p * 12) (n_simulations p)) (\<lambda>results.
     then_do (app_statistics (goal_amount p * inflation_factor) (n_simulations p) (last results)) (\<lambda>s.
       Inr (results, s))))"
  by (simp add: app_run_simulation_def gen_paths_def Let_def then_do_assoc app_months_gen)

lemma mc_run_simulation_gen:
  "mc_run_simulation gauss p
   = gen_run (\<lambda>m. m mod 12 \<noteq> 0) (\<lambda>f. mc_statistics (goal_amount p * f)) gauss p"
  by (simp add: mc_run_simulation_paths gen_run_def)

lemma app_run_simulation_gen:
  "app_run_simulation gauss p
   = gen_run (\<lambda>m. True) (\<lambda>f. app_statistics (goal_amount p * f)) gauss p"
  by (simp add: app_run_simulation_paths gen_run_def)

lemma last_trajectory:
  "last (trajectory adds gauss l s c v (Suc k) n) = map (balance adds gauss l s c v k) [0..<n]"
  by (simp add: trajectory_def)

lemma gen_paths_Inr:
  assumes "gen_paths adds gauss mr mv c v months n = Inr r" "0 \<le> months"
  shows "\<exists>l s. r = trajectory adds gauss l s c v (nat months + 1) (nat n)"
proof -
  have n: "0 \<le> n"
    using assms(1) gen_paths_negative[of months n adds gauss mr mv c v] by force
  show ?thesis
  proof (cases "months = 0")
    case True
    then show ?thesis
      using assms(1) gen_paths_no_months[OF n, of adds gauss mr mv c v] by auto
  next
    case False
    then have pos: "0 < months" using assms(2) by simp
    show ?thesis
    proof (cases mr)
      case None
      then show ?thesis using assms(1) gen_paths_complex[OF pos n, of adds gauss mv c v] by simp
    next
      case (Some l)
      show ?thesis
      proof (cases "mv < 0")
        case True
        then show ?thesis
          using assms(1) Some gen_paths_negative_scale[OF pos n True, of adds gauss l c v] by simp
      next
        case False
        then have "0 \<le> mv" by simp
        from gen_paths_trajectory[OF assms(2) n this, of adds gauss l c v] show ?thesis
          using assms(1) Some by auto
      qed
    qed
  qed
qed

lemma gen_run_fails:
  assumes "\<not> completes p" and empty: "\<And>g n. \<exists>e. stats g n [] = Inl e"
  shows "\<exists>e. gen_run adds stats gauss p = Inl e"
proof -
  consider (range) "0 \<le> years p"
        "double_overflow \<le> real_of_int (years p) \<or>
         double_overflow \<le> \<bar>(1 + inflation_rate p / 100) ^ nat (years p)\<bar>"
    | (neg) "years p < 0" | (cols) "0 \<le> years p" "n_simulations p < 0"
    | (none) "0 \<le> years p" "n_simulations p = 0"
    | (rate) "1 \<le> years p" "1 \<le> n_simulations p" "annual_return p < -100"
    | (vol) "1 \<le> years p" "1 \<le> n_simulations p" "-100 \<le> annual_return p" "annual_volatility p < 0"
    using assms(1) unfolding completes_def by linarith
  then show ?thesis
  proof cases
    case range
    then have "float_pow_int (1 + inflation_rate p / 100) (years p) = Inl OverflowError"
      by (auto simp: float_pow_int_def power_int_nonneg_exp)
    then show ?thesis by (simp add: gen_run_def)
  next
    case neg
    then have "gen_paths adds gauss
                (map_option (\<lambda>r. r - 1) (float_pow_frac (1 + annual_return p / 100) (1 / 12)))
                (annual_volatility p / 100 / sqrt 12) (monthly_contribution p) (current_savings p)
                (years p * 12) (n_simulations p) = Inl ValueError"
      by (intro gen_paths_negative) simp
    then show ?thesis
      by (cases "float_pow_int (1 + inflation_rate p / 100) (years p)") (simp_all add: gen_run_def)
  next
    case cols
    then have "gen_paths adds gauss
                (map_option (\<lambda>r. r - 1) (float_pow_frac (1 + annual_return p / 100) (1 / 12)))
                (annual_volatility p / 100 / sqrt 12) (monthly_contribution p) (current_savings p)
                (years p * 12) (n_simulations p) = Inl ValueError"
      by (intro gen_paths_negative) simp
    then show ?thesis
      by (cases "float_pow_int (1 + inflation_rate p / 100) (years p)") (simp_all add: gen_run_def)
  next
    case none
    show ?thesis
    proof (cases "gen_paths adds gauss
                (map_option (\<lambda>r. r - 1) (float_pow_frac (1 + annual_return p / 100) (1 / 12)))
                (annual_volatility p / 100 / sqrt 12) (monthly_contribution p) (current_savings p)
                (years p * 12) (n_simulations p)")
      case (Inl e)
      then show ?thesis
        by (cases "float_pow_int (1 + inflation_rate p / 100) (years p)") (simp_all add: gen_run_def)
    next
      case (Inr r)
      note paths = this
      obtain l s where "r = trajectory adds gauss l s (monthly_contribution p) (current_savings p)
                             (nat (years p * 12) + 1) (nat (n_simulations p))"
        using gen_paths_Inr[OF paths] none(1) by auto
      then have last: "last r = []" using none(2) by (simp add: last_trajectory)
      show ?thesis
      proof (cases "float_pow_int (1 + inflation_rate p / 100) (years p)")
        case (Inl e)
        then show ?thesis by (simp add: gen_run_def)
      next
        case (Inr b)
        obtain e where "stats b (n_simulations p) [] = Inl e"
          using empty by blast
        then show ?thesis
          unfolding gen_run_def Inr paths then_do_Inr last by simp
      qed
    qed
  next
    case rate
    then have "float_pow_frac (1 + annual_return p / 100) (1 / 12) = None"
      by (simp add: float_pow_frac_def)
    then have "gen_paths adds gauss
                (map_option (\<lambda>r. r - 1) (float_pow_frac (1 + annual_return p / 100) (1 / 12)))
                (annual_volatility p / 100 / sqrt 12) (monthly_contribution p) (current_savings p)
                (years p * 12) (n_simulations p) = Inl TypeError"
      using rate by (simp add: gen_paths_complex)
    then show ?thesis
      by (cases "float_pow_int (1 + inflation_rate p / 100) (years p)") (simp_all add: gen_run_def)
  next
    case vol
    then have "float_pow_frac (1 + annual_return p / 100) (1 / 12)
               = Some ((1 + annual_return p / 100) powr (1 / 12))"
      by (simp add: float_pow_frac_def)
    moreover have "annual_volatility p / 100 / sqrt 12 < 0"
      using vol by (simp add: divide_neg_pos)
    ultimately have "gen_paths adds gauss
                (map_option (\<lambda>r. r - 1) (float_pow_frac (1 + annual_return p / 100) (1 / 12)))
                (annual_volatility p / 100 / sqrt 12) (monthly_contribution p) (current_savings p)
                (years p * 12) (n_simulations p) = Inl ValueError"
      using vol by (simp add: gen_paths_negative_scale)
    then show ?thesis
      by (cases "float_pow_int (1 + inflation_rate p / 100) (years p)") (simp_all add: gen_run_def)
  qed
qed

lemma gen_run_completes:
  assumes "completes p"
  shows "gen_run adds stats gauss p =
           then_do (stats ((1 + inflation_rate p / 100) ^ nat (years p))
                      (n_simulations p) (last (run_trajectory adds gauss p)))
             (\<lambda>s. Inr (run_trajectory adds gauss p, s))"
    and "last (run_trajectory adds gauss p) \<noteq> []"
proof -
  have y: "0 \<le> years p" and n: "1 \<le> n_simulations p"
    and range: "real_of_int (years p) < double_overflow"
      "\<bar>(1 + inflation_rate p / 100) ^ nat (years p)\<bar> < double_overflow"
    using assms by (simp_all add: completes_def double_overflow_def)
  have pow: "float_pow_int (1 + inflation_rate p / 100) (years p)
             = Inr ((1 + inflation_rate p / 100) ^ nat (years p))"
    using y range by (simp add: float_pow_int_def power_int_nonneg_exp)
  have paths: "gen_paths adds gauss
                (map_option (\<lambda>r. r - 1) (float_pow_frac (1 + annual_return p / 100) (1 / 12)))
                (annual_volatility p / 100 / sqrt 12) (monthly_contribution p) (current_savings p)
                (years p * 12) (n_simulations p) = Inr (run_trajectory adds gauss p)"
  proof (cases "years p = 0")
    case True
    then show ?thesis
      using n gen_paths_no_months[of "n_simulations p" adds gauss _ _ "monthly_contribution p"
                "current_savings p" "(1 + annual_return p / 100) powr (1 / 12) - 1"
                "annual_volatility p / 100 / sqrt 12"]
      by (simp add: run_trajectory_def)
  next
    case False
    then have "1 \<le> years p" using y by simp
    then have r: "-100 \<le> annual_return p" and v: "0 \<le> annual_volatility p"
      using assms by (simp_all add: completes_def double_overflow_def)
    have "float_pow_frac (1 + annual_return p / 100) (1 / 12)
               = Some ((1 + annual_return p / 100) powr (1 / 12))"
      using r by (simp add: float_pow_frac_def)
    moreover have "0 \<le> annual_volatility p / 100 / sqrt 12"
      using v by simp
    ultimately show ?thesis
      using y n by (simp add: gen_paths_trajectory run_trajectory_def)
  qed
  show "gen_run adds stats gauss p =
           then_do (stats ((1 + inflation_rate p / 100) ^ nat (years p))
                      (n_simulations p) (last (run_trajectory adds gauss p)))
             (\<lambda>s. Inr (run_trajectory adds gauss p, s))"
    unfolding gen_run_def pow paths then_do_Inr ..
  show "last (run_trajectory adds gauss p) \<noteq> []"
    using n by (simp add: run_trajectory_def last_trajectory)
qed


lemma percentile_dict_nonempty:
  assumes "fv \<noteq> []"
  shows "percentile_dict fv =
           Inr \<lparr>p5th = lerp_percentile fv 5, p25th = lerp_percentile fv 25,
                p50th = lerp_percentile fv 50, p75th = lerp_percentile fv 75,
                p95th = lerp_percentile fv 95\<rparr>"
  using assms by (simp add: percentile_dict_def np_percentile_def)

lemma percentile_dict_empty: "percentile_dict [] = Inl IndexError"
  by (simp add: percentile_dict_def np_percentile_def)

lemma mc_statistics_nonempty:
  assumes "fv \<noteq> []"
  shows "mc_statistics g n fv =
           Inr \<lparr>success_probability = real (count_ge fv g) / real_of_int n * 100,
                future_goal = g,
                median_final_value = lerp_percentile fv 50,
                mean_final_value = np_mean fv,
                std_final_value = np_std fv,
                percentiles = \<lparr>p5th = lerp_percentile fv 5, p25th = lerp_percentile fv 25,
                  p50th = lerp_percentile fv 50, p75th = lerp_percentile fv 75,
                  p95th = lerp_percentile fv 95\<rparr>,
                min_value = Min (set fv),
                max_value = Max (set fv),
                avg_shortfall = (if below fv g = [] then 0 else np_mean (map (\<lambda>b. g - b) (below fv g))),
                shortfall_probability = 100 - real (count_ge fv g) / real_of_int n * 100\<rparr>"
  using assms
  by (simp add: mc_statistics_def percentile_dict_nonempty np_min_def np_max_def Let_def)

lemma mc_statistics_empty: "mc_statistics g n [] = Inl IndexError"
  by (simp add: mc_statistics_def percentile_dict_empty Let_def)

lemma app_statistics_nonempty:
  assumes "fv \<noteq> []"
  shows "app_statistics g n fv =
           Inr \<lparr>success_probability = real (count_ge fv g) / real_of_int n * 100,
                future_goal = g,
                median_final_value = lerp_percentile fv 50,
                mean_final_value = np_mean fv,
                std_final_value = np_std fv,
                percentiles = \<lparr>p5th = lerp_percentile fv 5, p25th = lerp_percentile fv 25,
                  p50th = lerp_percentile fv 50, p75th = lerp_percentile fv 75,
                  p95th = lerp_percentile fv 95\<rparr>,
                min_value = Min (set fv),
                max_value = Max (set fv),
                summary_n_simulations = n\<rparr>"
  using assms
  by (simp add: app_statistics_def percentile_dict_nonempty np_min_def np_max_def Let_def)

lemma app_statistics_empty: "app_statistics g n [] = Inl IndexError"
  by (simp add: app_statistics_def percentile_dict_empty Let_def)

subsection \<open>The statistics of a final-balance sample\<close>

lemma count_ge_card: "count_ge fv g = card {i. i < length fv \<and> g \<le> fv ! i}"
  by (simp add: count_ge_def length_filter_conv_card)

lemma count_ge_le: "count_ge fv g \<le> length fv"
  by (simp add: count_ge_def)

lemma count_ge_all: "\<forall>b\<in>set fv. g \<le> b \<Longrightarrow> count_ge fv g = length fv"
  by (simp add: count_ge_def)

lemma count_ge_none: "\<forall>b\<in>set fv. b < g \<Longrightarrow> count_ge fv g = 0"
  by (auto simp: count_ge_def filter_empty_conv)

lemma below_all: "\<forall>b\<in>set fv. b < g \<Longrightarrow> below fv g = fv"
  by (simp add: below_def)

lemma mean_shortfall:
  assumes "fv \<noteq> []"
  shows "np_mean (map (\<lambda>b. g - b) fv) = g - np_mean fv"
proof -
  have "sum_list (map (\<lambda>b. g - b) fv) = real (length fv) * g - sum_list fv"
    by (simp add: sum_list_subtractf sum_list_triv)
  moreover have "real (length fv) \<noteq> 0" using assms by simp
  ultimately show ?thesis
    by (simp add: np_mean_def diff_divide_distrib)
qed

lemma success_probability_range:
  assumes "fv \<noteq> []" "n = int (length fv)"
  shows "0 \<le> real (count_ge fv g) / real_of_int n * 100"
    and "real (count_ge fv g) / real_of_int n * 100 \<le> 100"
proof -
  define x where "x = real (count_ge fv g) / real_of_int n"
  have pos: "0 < real (length fv)" using assms(1) by simp
  have eq: "real_of_int n = real (length fv)" using assms(2) by simp
  have "real (count_ge fv g) \<le> real (length fv)" using count_ge_le[of fv g] by simp
  then have "x \<le> 1"
    using pos by (simp add: x_def eq divide_le_eq_1)
  moreover have "0 \<le> x" by (simp add: x_def eq)
  ultimately have "0 \<le> x * 100" "x * 100 \<le> 100" by simp_all
  then show "0 \<le> real (count_ge fv g) / real_of_int n * 100"
    and "real (count_ge fv g) / real_of_int n * 100 \<le> 100"
    unfolding x_def by blast+
qed

text \<open>
  C4. On a final-balance sample of length \<open>n_simulations \<ge> 1\<close> both methods report
  \<open>success_probability\<close> as 100 times the number of balances greater than or equal to the
  goal, divided by \<open>n_simulations\<close>. The comparison is inclusive: a sample whose values
  all equal the goal has \<open>success_probability = 100\<close>.
\<close>

theorem success_probability_inclusive:
  assumes "fv \<noteq> []" "n = int (length fv)"
  shows "(\<exists>s. mc_statistics g n fv = Inr s \<and>
            success_probability s
              = 100 * real (card {i. i < length fv \<and> g \<le> fv ! i}) / real_of_int n \<and>
            ((\<forall>b\<in>set fv. b = g) \<longrightarrow> success_probability s = 100)) \<and>
         (\<exists>s. app_statistics g n fv = Inr s \<and>
            success_probability s
              = 100 * real (card {i. i < length fv \<and> g \<le> fv ! i}) / real_of_int n \<and>
            ((\<forall>b\<in>set fv. b = g) \<longrightarrow> success_probability s = 100))"
proof -
  have n0: "real_of_int n \<noteq> 0" using assms by simp
  have all: "real (count_ge fv g) / real_of_int n * 100 = 100" if "\<forall>b\<in>set fv. b = g"
  proof -
    have "count_ge fv g = length fv" using that by (intro count_ge_all) simp
    then show ?thesis using assms n0 by simp
  qed
  show ?thesis
    using all by (simp add: mc_statistics_nonempty[OF assms(1)] app_statistics_nonempty[OF assms(1)]
        count_ge_card[symmetric])
qed

theorem success_probability_inclusive_witness:
  "[5, 5] \<noteq> ([] :: real list) \<and> (2::int) = int (length [5::real, 5]) \<and>
   (\<exists>s. mc_statistics 5 2 [5, 5] = Inr s \<and> success_probability s = 100) \<and>
   (\<exists>s. app_statistics 5 2 [5, 5] = Inr s \<and> success_probability s = 100)"
  using success_probability_inclusive[of "[5, 5]" 2 5] by auto

text \<open>
  C10. On a final-balance sample of length \<open>n_simulations \<ge> 1\<close> the reported
  \<open>success_probability\<close> lies between 0 and 100, and so does
  \<open>shortfall_probability = 100 - success_probability\<close> of \<open>monte_carlo.py\<close>.
\<close>

theorem probabilities_within_0_100:
  assumes "fv \<noteq> []" "n = int (length fv)"
  shows "(\<exists>s. mc_statistics g n fv = Inr s \<and>
            0 \<le> success_probability s \<and> success_probability s \<le> 100 \<and>
            shortfall_probability s = 100 - success_probability s \<and>
            0 \<le> shortfall_probability s \<and> shortfall_probability s \<le> 100) \<and>
         (\<exists>s. app_statistics g n fv = Inr s \<and>
            0 \<le> success_probability s \<and> success_probability s \<le> 100)"
  using success_probability_range[OF assms, of g]
  by (simp add: mc_statistics_nonempty[OF assms(1)] app_statistics_nonempty[OF assms(1)])

theorem probabilities_within_0_100_witness:
  "[1, 7, 9] \<noteq> ([] :: real list) \<and> (3::int) = int (length [1::real, 7, 9]) \<and>
   (\<exists>s. mc_statistics 7 3 [1, 7, 9] = Inr s \<and>
        0 \<le> success_probability s \<and> success_probability s \<le> 100 \<and>
        0 \<le> shortfall_probability s \<and> shortfall_probability s \<le> 100) \<and>
   (\<exists>s. app_statistics 7 3 [1, 7, 9] = Inr s \<and>
        0 \<le> success_probability s \<and> success_probability s \<le> 100)"
  using probabilities_within_0_100[of "[1, 7, 9]" 3 7] by auto

text \<open>
  C7. On a non-empty final-balance sample \<open>monte_carlo.py\<close> reports
  \<open>shortfall_probability = 100 - success_probability\<close>, and \<open>avg_shortfall\<close> is the mean of
  \<open>goal - b\<close> over the balances \<open>b\<close> below the goal, 0 when there is none. On a sample
  entirely below the goal, \<open>success_probability = 0\<close> and \<open>avg_shortfall\<close> is the goal minus
  the mean of the sample.
\<close>

theorem shortfall_metrics:
  assumes "fv \<noteq> []"
  shows "\<exists>s. mc_statistics g n fv = Inr s \<and>
           shortfall_probability s = 100 - success_probability s \<and>
           avg_shortfall s
             = (if filter (\<lambda>b. b < g) fv = [] then 0
                else (\<Sum>b\<leftarrow>filter (\<lambda>b. b < g) fv. g - b) / real (length (filter (\<lambda>b. b < g) fv))) \<and>
           ((\<forall>b\<in>set fv. b < g) \<longrightarrow>
              success_probability s = 0 \<and> avg_shortfall s = g - sum_list fv / real (length fv))"
proof -
  have "avg_shortfall_of = g - sum_list fv / real (length fv)"
    if "\<forall>b\<in>set fv. b < g"
      and "avg_shortfall_of = (if below fv g = [] then 0 else np_mean (map (\<lambda>b. g - b) (below fv g)))"
    for avg_shortfall_of
    using that assms mean_shortfall[OF assms, of g] by (simp add: below_all np_mean_def)
  then show ?thesis
    by (simp add: mc_statistics_nonempty[OF assms] count_ge_none)
       (simp add: below_def np_mean_def)
qed

theorem shortfall_metrics_witness:
  "[1, 3] \<noteq> ([] :: real list) \<and>
   (\<exists>s. mc_statistics 10 2 [1, 3] = Inr s \<and> success_probability s = 0 \<and> avg_shortfall s = 8)"
  using shortfall_metrics[of "[1, 3]" 10 2] by auto



subsection \<open>The two methods as a whole\<close>

lemma then_do_pair_iff: "then_do m (\<lambda>s. Inr (t, s)) = Inr (r, s) \<longleftrightarrow> r = t \<and> m = Inr s"
  by (cases m) auto

lemma gen_run_Inr_iff:
  assumes empty: "\<And>g n. \<exists>e. stats g n [] = Inl e"
  shows "gen_run adds stats gauss p = Inr (r, s) \<longleftrightarrow>
           completes p \<and> r = run_trajectory adds gauss p \<and>
           stats ((1 + inflation_rate p / 100) ^ nat (years p))
             (n_simulations p) (last r) = Inr s"
proof (cases "completes p")
  case True
  show ?thesis
    unfolding gen_run_completes(1)[OF True] then_do_pair_iff using True by auto
next
  case False
  then obtain e where "gen_run adds stats gauss p = Inl e"
    using gen_run_fails[of p stats adds gauss] False empty by blast
  then show ?thesis using False by simp
qed

lemma mc_run_simulation_Inr_iff:
  "mc_run_simulation gauss p = Inr (r, s) \<longleftrightarrow>
     completes p \<and> r = run_trajectory (\<lambda>m. m mod 12 \<noteq> 0) gauss p \<and>
     mc_statistics (goal_amount p * (1 + inflation_rate p / 100) ^ nat (years p))
       (n_simulations p) (last r) = Inr s"
  unfolding mc_run_simulation_gen
  by (rule gen_run_Inr_iff) (simp add: mc_statistics_empty)

lemma app_run_simulation_Inr_iff:
  "app_run_simulation gauss p = Inr (r, s) \<longleftrightarrow>
     completes p \<and> r = run_trajectory (\<lambda>m. True) gauss p \<and>
     app_statistics (goal_amount p * (1 + inflation_rate p / 100) ^ nat (years p))
       (n_simulations p) (last r) = Inr s"
  unfolding app_run_simulation_gen
  by (rule gen_run_Inr_iff) (simp add: app_statistics_empty)

lemma mc_run_simulation_completes:
  assumes "completes p"
  shows "\<exists>s. mc_run_simulation gauss p = Inr (run_trajectory (\<lambda>m. m mod 12 \<noteq> 0) gauss p, s)"
proof -
  have "last (run_trajectory (\<lambda>m. m mod 12 \<noteq> 0) gauss p) \<noteq> []"
    using assms by (rule gen_run_completes(2))
  then show ?thesis
    using assms by (simp add: mc_run_simulation_Inr_iff mc_statistics_nonempty)
qed

lemma app_run_simulation_completes:
  assumes "completes p"
  shows "\<exists>s. app_run_simulation gauss p = Inr (run_trajectory (\<lambda>m. True) gauss p, s)"
proof -
  have "last (run_trajectory (\<lambda>m. True) gauss p) \<noteq> []"
    using assms by (rule gen_run_completes(2))
  then show ?thesis
    using assms by (simp add: app_run_simulation_Inr_iff app_statistics_nonempty)
qed

lemma length_run_trajectory: "length (run_trajectory adds gauss p) = nat (years p * 12) + 1"
  by (simp add: run_trajectory_def trajectory_def)

lemma run_trajectory_rows:
  "row \<in> set (run_trajectory adds gauss p) \<Longrightarrow> length row = nat (n_simulations p)"
  by (auto simp: run_trajectory_def trajectory_def)

lemma run_trajectory_nth:
  assumes "m \<le> nat (years p * 12)" "j < nat (n_simulations p)"
  shows "run_trajectory adds gauss p ! m ! j =
           balance adds gauss ((1 + annual_return p / 100) powr (1 / 12) - 1)
             (annual_volatility p / 100 / sqrt 12) (monthly_contribution p) (current_savings p) m j"
proof -
  have "m < nat (years p * 12) + 1" using assms(1) by simp
  then show ?thesis
    using assms(2) unfolding run_trajectory_def trajectory_def by (simp del: upt_Suc)
qed

lemma run_trajectory_row0:
  "run_trajectory adds gauss p ! 0 = replicate (nat (n_simulations p)) (current_savings p)"
  by (simp add: run_trajectory_def trajectory_def balance_row0 nth_append del: upt_Suc)

lemma mc_run_simulation_summary:
  assumes "completes p"
  shows "\<exists>s. mc_run_simulation gauss p = Inr (run_trajectory (\<lambda>m. m mod 12 \<noteq> 0) gauss p, s) \<and>
           last (run_trajectory (\<lambda>m. m mod 12 \<noteq> 0) gauss p) \<noteq> [] \<and>
           mc_statistics (goal_amount p * (1 + inflation_rate p / 100) ^ nat (years p))
             (n_simulations p) (last (run_trajectory (\<lambda>m. m mod 12 \<noteq> 0) gauss p)) = Inr s"
  using mc_run_simulation_completes[OF assms, of gauss] gen_run_completes(2)[OF assms]
  by (auto simp: mc_run_simulation_Inr_iff)

lemma app_run_simulation_summary:
  assumes "completes p"
  shows "\<exists>s. app_run_simulation gauss p = Inr (run_trajectory (\<lambda>m. True) gauss p, s) \<and>
           last (run_trajectory (\<lambda>m. True) gauss p) \<noteq> [] \<and>
           app_statistics (goal_amount p * (1 + inflation_rate p / 100) ^ nat (years p))
             (n_simulations p) (last (run_trajectory (\<lambda>m. True) gauss p)) = Inr s"
  using app_run_simulation_completes[OF assms, of gauss] gen_run_completes(2)[OF assms]
  by (auto simp: app_run_simulation_Inr_iff)

lemma has_shape_run_trajectory:
  assumes "0 \<le> years p" "0 \<le> n_simulations p"
  shows "has_shape p (run_trajectory adds gauss p)"
  using assms
  by (auto simp: has_shape_def length_run_trajectory run_trajectory_rows run_trajectory_row0)

lemma has_shape_initial:
  assumes "0 \<le> years p" "0 \<le> n_simulations p"
  shows "\<exists>zeros results0. np_zeros (years p * 12 + 1) (n_simulations p) = Inr zeros \<and>
           set_row0 zeros (current_savings p) = Inr results0 \<and> has_shape p results0"
proof -
  let ?zeros = "replicate (nat (years p * 12 + 1)) (replicate (nat (n_simulations p)) (0::real))"
  let ?row0 = "replicate (nat (n_simulations p)) (current_savings p)"
  have rows: "nat (years p * 12 + 1) = Suc (nat (years p * 12))" using assms(1) by simp
  have z: "np_zeros (years p * 12 + 1) (n_simulations p) = Inr ?zeros"
    using assms by (simp add: np_zeros_def)
  have r0: "set_row0 ?zeros (current_savings p)
            = Inr (?row0 # replicate (nat (years p * 12)) (replicate (nat (n_simulations p)) 0))"
    by (simp add: set_row0_def rows map_replicate_const)
  have "has_shape p (?row0 # replicate (nat (years p * 12)) (replicate (nat (n_simulations p)) 0))"
    using assms by (auto simp: has_shape_def)
  then show ?thesis using z r0 by blast
qed

text \<open>
  C3. With \<open>years \<ge> 1\<close> and \<open>n_simulations \<ge> 1\<close> the matrix has exactly
  \<open>years * 12 + 1\<close> rows and \<open>n_simulations\<close> columns and every entry of row 0 is
  \<open>current_savings\<close> (\<open>has_shape\<close>): as allocated and initialised, and as stored by
  either method when the run completes, which it does whenever, in addition,
  \<open>annual_return \<ge> -100\<close>, \<open>annual_volatility \<ge> 0\<close> and the inflation factor
  \<open>(1 + inflation_rate / 100) ** years\<close> stays in the range of a double.
\<close>

theorem trajectory_shape:
  assumes "1 \<le> years p" "1 \<le> n_simulations p"
  shows "(\<exists>zeros results0. np_zeros (years p * 12 + 1) (n_simulations p) = Inr zeros \<and>
            set_row0 zeros (current_savings p) = Inr results0 \<and> has_shape p results0) \<and>
         (\<forall>r s. mc_run_simulation gauss p = Inr (r, s) \<longrightarrow> has_shape p r) \<and>
         (\<forall>r s. app_run_simulation gauss p = Inr (r, s) \<longrightarrow> has_shape p r) \<and>
         (-100 \<le> annual_return p \<and> 0 \<le> annual_volatility p \<and>
          real_of_int (years p) < double_overflow \<and>
          \<bar>(1 + inflation_rate p / 100) ^ nat (years p)\<bar> < double_overflow \<longrightarrow>
            (\<exists>r s. mc_run_simulation gauss p = Inr (r, s)) \<and>
            (\<exists>r s. app_run_simulation gauss p = Inr (r, s)))"
proof -
  have y: "0 \<le> years p" and n: "0 \<le> n_simulations p" using assms by simp_all
  have "completes p"
    if "-100 \<le> annual_return p \<and> 0 \<le> annual_volatility p \<and>
        real_of_int (years p) < double_overflow \<and>
        \<bar>(1 + inflation_rate p / 100) ^ nat (years p)\<bar> < double_overflow"
    using that assms by (simp add: completes_def)
  then show ?thesis
    using has_shape_initial[OF y n] has_shape_run_trajectory[OF y n]
      mc_run_simulation_completes[of p gauss] app_run_simulation_completes[of p gauss]
    by (simp add: mc_run_simulation_Inr_iff app_run_simulation_Inr_iff)
qed

theorem trajectory_shape_witness:
  "(\<exists>r s. mc_run_simulation zero_gauss
       \<lparr>current_savings = 100, monthly_contribution = 10, years = 1, annual_return = 0,
        annual_volatility = 0, inflation_rate = 0, goal_amount = 0, n_simulations = 2\<rparr> = Inr (r, s) \<and>
       length r = 13 \<and> (\<forall>row\<in>set r. length row = 2) \<and> (\<forall>x\<in>set (r ! 0). x = 100)) \<and>
   (\<exists>r s. app_run_simulation zero_gauss
       \<lparr>current_savings = 100, monthly_contribution = 10, years = 1, annual_return = 0,
        annual_volatility = 0, inflation_rate = 0, goal_amount = 0, n_simulations = 2\<rparr> = Inr (r, s) \<and>
       length r = 13 \<and> (\<forall>row\<in>set r. length row = 2) \<and> (\<forall>x\<in>set (r ! 0). x = 100))"
  using trajectory_shape[of "\<lparr>current_savings = 100, monthly_contribution = 10, years = 1,
        annual_return = 0, annual_volatility = 0, inflation_rate = 0, goal_amount = 0,
        n_simulations = 2\<rparr>" zero_gauss]
  by (simp add: has_shape_def double_overflow_def) blast

text \<open>
  C6. In every run that completes, the reported \<open>future_goal\<close> is
  \<open>goal_amount * (1 + inflation_rate / 100) ^ years\<close> with \<open>inflation_rate\<close> the percentage
  given, and it is non-negative whenever \<open>goal_amount\<close> and \<open>inflation_rate\<close> are.
\<close>

theorem future_goal_inflation_adjusted:
  assumes "completes p"
  shows "(\<exists>r s. mc_run_simulation gauss p = Inr (r, s) \<and>
            future_goal s = goal_amount p * (1 + inflation_rate p / 100) ^ nat (years p) \<and>
            (0 \<le> goal_amount p \<and> 0 \<le> inflation_rate p \<longrightarrow> 0 \<le> future_goal s)) \<and>
         (\<exists>r s. app_run_simulation gauss p = Inr (r, s) \<and>
            future_goal s = goal_amount p * (1 + inflation_rate p / 100) ^ nat (years p) \<and>
            (0 \<le> goal_amount p \<and> 0 \<le> inflation_rate p \<longrightarrow> 0 \<le> future_goal s))"
proof -
  have nonneg: "0 \<le> goal_amount p * (1 + inflation_rate p / 100) ^ nat (years p)"
    if "0 \<le> goal_amount p \<and> 0 \<le> inflation_rate p"
    using that by (intro mult_nonneg_nonneg zero_le_power) simp_all
  obtain sm where sm: "mc_run_simulation gauss p = Inr (run_trajectory (\<lambda>m. m mod 12 \<noteq> 0) gauss p, sm)"
    "future_goal sm = goal_amount p * (1 + inflation_rate p / 100) ^ nat (years p)"
    using mc_run_simulation_summary[OF assms, of gauss] by (auto simp: mc_statistics_nonempty)
  obtain sa where sa: "app_run_simulation gauss p = Inr (run_trajectory (\<lambda>m. True) gauss p, sa)"
    "future_goal sa = goal_amount p * (1 + inflation_rate p / 100) ^ nat (years p)"
    using app_run_simulation_summary[OF assms, of gauss] by (auto simp: app_statistics_nonempty)
  show ?thesis using sm sa nonneg by auto
qed

theorem future_goal_inflation_adjusted_witness:
  "(\<exists>r s. mc_run_simulation zero_gauss
       \<lparr>current_savings = 100, monthly_contribution = 10, years = 2, annual_return = 0,
        annual_volatility = 0, inflation_rate = 50, goal_amount = 400, n_simulations = 1\<rparr> = Inr (r, s) \<and>
       future_goal s = 900) \<and>
   (\<exists>r s. app_run_simulation zero_gauss
       \<lparr>current_savings = 100, monthly_contribution = 10, years = 2, annual_return = 0,
        annual_volatility = 0, inflation_rate = 50, goal_amount = 400, n_simulations = 1\<rparr> = Inr (r, s) \<and>
       future_goal s = 900)"
  using future_goal_inflation_adjusted[of "\<lparr>current_savings = 100, monthly_contribution = 10, years = 2, annual_return = 0,
        annual_volatility = 0, inflation_rate = 50, goal_amount = 400, n_simulations = 1\<rparr>" zero_gauss]
  by (auto simp: completes_def double_overflow_def power2_eq_square)

subsection \<open>The parameters of the monthly draws\<close>

lemma twelfth_root_power:
  assumes "0 \<le> (x::real)"
  shows "(x powr (1 / 12)) ^ 12 = x"
proof (cases "x = 0")
  case True
  then show ?thesis by simp
next
  case False
  then have "0 < x" using assms by simp
  then have "(x powr (1 / 12)) ^ 12 = x powr (1 / 12 * real 12)"
    by (simp add: powr_powr flip: powr_realpow)
  then show ?thesis using \<open>0 < x\<close> by simp
qed

lemma twelfth_root_below_twelfth:
  assumes "-1 \<le> (x::real)" "x \<noteq> 0"
  shows "(1 + x) powr (1 / 12) - 1 < x / 12"
proof -
  define y where "y = x / 12"
  have y: "-1 \<le> y" "y \<noteq> 0" "0 < 1 + y" using assms by (simp_all add: y_def)
  have "1 + 11 * y \<le> (1 + y) ^ 11"
    using Bernoulli_inequality[OF y(1), of 11] by simp
  then have "(1 + 11 * y) * (1 + y) \<le> (1 + y) ^ 11 * (1 + y)"
    using y(3) by (intro mult_right_mono) simp_all
  moreover have "(1 + 11 * y) * (1 + y) = 1 + 12 * y + 11 * y\<^sup>2"
    by (simp add: algebra_simps power2_eq_square)
  moreover have "0 < 11 * y\<^sup>2" using y(2) by simp
  moreover have "(1 + y) ^ 11 * (1 + y) = (1 + y) ^ 12"
    using power_Suc2[of "1 + y" 11] by simp
  ultimately have "1 + 12 * y < (1 + y) ^ 12" by linarith
  then have lt: "1 + x < (1 + y) ^ 12" by (simp add: y_def)
  have b: "0 \<le> 1 + x" using assms(1) by simp
  have "(1 + x) powr (1 / 12) < ((1 + y) ^ 12) powr (1 / 12)"
    using b lt by (intro powr_less_mono2) simp_all
  also have "((1 + y) ^ 12) powr (1 / 12) = 1 + y"
  proof -
    have "((1 + y) ^ 12) powr (1 / 12) = ((1 + y) powr real 12) powr (1 / 12)"
      using y(3) by (simp only: powr_realpow)
    also have "\<dots> = (1 + y) powr (real 12 * (1 / 12))" by (simp only: powr_powr)
    also have "\<dots> = 1 + y" using y(3) by simp
    finally show ?thesis .
  qed
  finally have "(1 + x) powr (1 / 12) < 1 + y" .
  then show ?thesis by (simp add: y_def)
qed

lemma sqrt_scaling: "12 * (v / sqrt 12)\<^sup>2 = v\<^sup>2"
  by (simp add: power_divide)

text \<open>
  C5. Each percentage is divided by 100 once, and the arguments that every monthly call of
  \<open>np.random.normal\<close> receives are \<open>mu = (1 + annual_return / 100) powr (1 / 12) - 1\<close> and
  \<open>sigma = (annual_volatility / 100) / sqrt 12\<close>: each draw is \<open>mu + sigma * g\<close> for a
  standard normal variate \<open>g\<close>, and each balance of a run that completes is the previous
  one times one plus that draw (plus the contribution). \<open>mu\<close> is the geometric
  de-annualisation: twelve months compound to the annual return, and \<open>mu\<close> is strictly
  below \<open>annual_return / 1200\<close> unless the return is zero. \<open>sigma\<close> is the square-root-of-time
  scaling: twelve monthly variances add up to the annual one.
\<close>

theorem monthly_draw_parameters:
  fixes p :: params and gauss :: "nat \<Rightarrow> nat \<Rightarrow> real"
  defines "mu \<equiv> (1 + annual_return p / 100) powr (1 / 12) - 1"
    and "sigma \<equiv> annual_volatility p / 100 / sqrt 12"
  assumes "completes p" "1 \<le> years p"
  shows "(\<forall>month. random_normal (gauss month)
            (map_option (\<lambda>r. r - 1) (float_pow_frac (1 + annual_return p / 100) (1 / 12)))
            (annual_volatility p / 100 / sqrt 12) (nat (n_simulations p))
          = Inr (map (\<lambda>j. mu + sigma * gauss month j) [0..<nat (n_simulations p)])) \<and>
         (\<exists>rm sm ra sa.
            mc_run_simulation gauss p = Inr (rm, sm) \<and> app_run_simulation gauss p = Inr (ra, sa) \<and>
            (\<forall>m j. 1 \<le> m \<and> m \<le> nat (years p * 12) \<and> j < nat (n_simulations p) \<longrightarrow>
               rm ! m ! j = rm ! (m - 1) ! j * (1 + (mu + sigma * gauss m j))
                            + (if m mod 12 \<noteq> 0 then monthly_contribution p else 0) \<and>
               ra ! m ! j = ra ! (m - 1) ! j * (1 + (mu + sigma * gauss m j))
                            + monthly_contribution p)) \<and>
         (1 + mu) ^ 12 = 1 + annual_return p / 100 \<and>
         12 * sigma\<^sup>2 = (annual_volatility p / 100)\<^sup>2 \<and>
         (annual_return p \<noteq> 0 \<longrightarrow> mu < annual_return p / 1200)"
proof -
  have r: "-100 \<le> annual_return p" and v: "0 \<le> annual_volatility p"
    using assms(3,4) by (simp_all add: completes_def double_overflow_def)
  have base: "0 \<le> 1 + annual_return p / 100" using r by simp
  have s0: "0 \<le> sigma" using v by (simp add: sigma_def)
  have draws: "random_normal (gauss month)
            (map_option (\<lambda>r. r - 1) (float_pow_frac (1 + annual_return p / 100) (1 / 12)))
            (annual_volatility p / 100 / sqrt 12) (nat (n_simulations p))
          = Inr (map (\<lambda>j. mu + sigma * gauss month j) [0..<nat (n_simulations p)])" for month
    using base s0 unfolding sigma_def[symmetric]
    by (simp add: random_normal_def float_pow_frac_def mu_def)
  obtain sm where sm: "mc_run_simulation gauss p = Inr (run_trajectory (\<lambda>m. m mod 12 \<noteq> 0) gauss p, sm)"
    using mc_run_simulation_completes[OF assms(3)] by blast
  obtain sa where sa: "app_run_simulation gauss p = Inr (run_trajectory (\<lambda>m. True) gauss p, sa)"
    using app_run_simulation_completes[OF assms(3)] by blast
  have step: "run_trajectory adds gauss p ! m ! j
              = run_trajectory adds gauss p ! (m - 1) ! j * (1 + (mu + sigma * gauss m j))
                + (if adds m then monthly_contribution p else 0)"
    if m1: "1 \<le> m" and m2: "m \<le> nat (years p * 12)" and j: "j < nat (n_simulations p)"
    for adds m j
  proof -
    obtain k where k: "m = Suc k" using m1 by (cases m) auto
    have "k \<le> nat (years p * 12)" using m2 k by simp
    then show ?thesis
      using m2 j unfolding k
      by (simp add: run_trajectory_nth mu_def sigma_def)
  qed
  have pow: "(1 + mu) ^ 12 = 1 + annual_return p / 100"
    using twelfth_root_power[OF base] by (simp add: mu_def)
  have var: "12 * sigma\<^sup>2 = (annual_volatility p / 100)\<^sup>2"
    unfolding sigma_def by (rule sqrt_scaling)
  have less: "mu < annual_return p / 1200" if "annual_return p \<noteq> 0"
    using twelfth_root_below_twelfth[of "annual_return p / 100"] r that by (simp add: mu_def)
  have step_mc: "run_trajectory (\<lambda>m. m mod 12 \<noteq> 0) gauss p ! m ! j
              = run_trajectory (\<lambda>m. m mod 12 \<noteq> 0) gauss p ! (m - 1) ! j
                  * (1 + (mu + sigma * gauss m j))
                + (if m mod 12 \<noteq> 0 then monthly_contribution p else 0)"
    if "1 \<le> m \<and> m \<le> nat (years p * 12) \<and> j < nat (n_simulations p)" for m j
    using step[of m j "\<lambda>m. m mod 12 \<noteq> 0"] that by simp
  have step_app: "run_trajectory (\<lambda>m. True) gauss p ! m ! j
              = run_trajectory (\<lambda>m. True) gauss p ! (m - 1) ! j
                  * (1 + (mu + sigma * gauss m j))
                + monthly_contribution p"
    if "1 \<le> m \<and> m \<le> nat (years p * 12) \<and> j < nat (n_simulations p)" for m j
    using step[of m j "\<lambda>m. True"] that by simp
  have runs: "\<exists>rm sm ra sa.
            mc_run_simulation gauss p = Inr (rm, sm) \<and> app_run_simulation gauss p = Inr (ra, sa) \<and>
            (\<forall>m j. 1 \<le> m \<and> m \<le> nat (years p * 12) \<and> j < nat (n_simulations p) \<longrightarrow>
               rm ! m ! j = rm ! (m - 1) ! j * (1 + (mu + sigma * gauss m j))
                            + (if m mod 12 \<noteq> 0 then monthly_contribution p else 0) \<and>
               ra ! m ! j = ra ! (m - 1) ! j * (1 + (mu + sigma * gauss m j))
                            + monthly_contribution p)"
    using sm sa step_mc step_app by blast
  show ?thesis
    using draws runs pow var less by blast
qed

lemma thirty_years_in_range: "\<bar>(41 / 40 :: real) ^ 30\<bar> < double_overflow"
proof -
  have "(41 / 40 :: real) ^ 30 \<le> 2 ^ 30"
    by (rule power_mono) simp_all
  also have "\<dots> < double_overflow" by (simp add: double_overflow_def)
  finally show ?thesis by simp
qed

theorem monthly_draw_parameters_witness:
  "\<exists>rm sm ra sa.
     mc_run_simulation unit_gauss
       \<lparr>current_savings = 50000, monthly_contribution = 1000, years = 30, annual_return = 7,
        annual_volatility = 15, inflation_rate = 5 / 2, goal_amount = 1500000,
        n_simulations = 10000\<rparr> = Inr (rm, sm) \<and>
     app_run_simulation unit_gauss
       \<lparr>current_savings = 50000, monthly_contribution = 1000, years = 30, annual_return = 7,
        annual_volatility = 15, inflation_rate = 5 / 2, goal_amount = 1500000,
        n_simulations = 10000\<rparr> = Inr (ra, sa) \<and>
     rm ! 0 ! 0 = 50000 \<and> ra ! 0 ! 0 = 50000 \<and>
     rm ! 1 ! 0 = rm ! 0 ! 0 * (1 + ((107 / 100) powr (1 / 12) - 1 + 15 / 100 / sqrt 12 * 1)) + 1000 \<and>
     ra ! 1 ! 0 = ra ! 0 ! 0 * (1 + ((107 / 100) powr (1 / 12) - 1 + 15 / 100 / sqrt 12 * 1)) + 1000 \<and>
     rm ! 12 ! 0 = rm ! 11 ! 0 * (1 + ((107 / 100) powr (1 / 12) - 1 + 15 / 100 / sqrt 12 * 1)) \<and>
     ra ! 12 ! 0 = ra ! 11 ! 0 * (1 + ((107 / 100) powr (1 / 12) - 1 + 15 / 100 / sqrt 12 * 1)) + 1000 \<and>
     (1 + ((107 / 100) powr (1 / 12) - 1)) ^ 12 = (107 / 100 :: real) \<and>
     12 * (15 / 100 / sqrt 12)\<^sup>2 = ((15 / 100)\<^sup>2 :: real) \<and>
     (107 / 100) powr (1 / 12) - 1 < (7 / 1200 :: real)"
proof -
  let ?p = "\<lparr>current_savings = 50000, monthly_contribution = 1000, years = 30, annual_return = 7,
        annual_volatility = 15, inflation_rate = 5 / 2, goal_amount = 1500000,
        n_simulations = 10000\<rparr>"
  let ?d = "(107 / 100) powr (1 / 12) - 1 + 15 / 100 / sqrt 12 * 1 :: real"
  have "(1 + inflation_rate ?p / 100) ^ nat (years ?p) = (41 / 40) ^ 30" by simp
  then have range: "\<bar>(1 + inflation_rate ?p / 100) ^ nat (years ?p)\<bar> < double_overflow"
    using thirty_years_in_range by (simp only:)
  have "real_of_int (years ?p) < double_overflow" by (simp add: double_overflow_def)
  then have c: "completes ?p"
    unfolding completes_def using range by simp
  have y: "1 \<le> years ?p" by simp
  from monthly_draw_parameters[OF c y, of unit_gauss]
  obtain rm sm ra sa where runs: "mc_run_simulation unit_gauss ?p = Inr (rm, sm)"
      "app_run_simulation unit_gauss ?p = Inr (ra, sa)"
    and rec: "\<And>m j. 1 \<le> m \<and> m \<le> 360 \<and> j < 10000 \<Longrightarrow>
               rm ! m ! j = rm ! (m - 1) ! j * (1 + ?d) + (if m mod 12 \<noteq> 0 then 1000 else 0) \<and>
               ra ! m ! j = ra ! (m - 1) ! j * (1 + ?d) + 1000"
    and facts: "(1 + ((107 / 100) powr (1 / 12) - 1)) ^ 12 = (107 / 100 :: real)"
      "12 * (15 / 100 / sqrt 12)\<^sup>2 = ((15 / 100)\<^sup>2 :: real)"
      "(107 / 100) powr (1 / 12) - 1 < (7 / 1200 :: real)"
    by (auto simp: unit_gauss_def)
  have "rm = run_trajectory (\<lambda>m. m mod 12 \<noteq> 0) unit_gauss ?p"
    using runs(1) by (simp add: mc_run_simulation_Inr_iff)
  then have m0: "rm ! 0 ! 0 = 50000" by (simp add: run_trajectory_row0)
  have "ra = run_trajectory (\<lambda>m. True) unit_gauss ?p"
    using runs(2) by (simp add: app_run_simulation_Inr_iff)
  then have a0: "ra ! 0 ! 0 = 50000" by (simp add: run_trajectory_row0)
  show ?thesis
    using runs rec[of 1 0] rec[of 12 0] facts m0 a0 by simp
qed

subsection \<open>The two contribution timings\<close>

lemma run_trajectory_row:
  assumes "m \<le> nat (years p * 12)"
  shows "run_trajectory adds gauss p ! m =
           map (balance adds gauss ((1 + annual_return p / 100) powr (1 / 12) - 1)
                  (annual_volatility p / 100 / sqrt 12) (monthly_contribution p)
                  (current_savings p) m) [0..<nat (n_simulations p)]"
proof -
  have "m < nat (years p * 12) + 1" using assms by simp
  then show ?thesis
    unfolding run_trajectory_def trajectory_def by (simp del: upt_Suc)
qed

lemma last_run_trajectory:
  "last (run_trajectory adds gauss p) = run_trajectory adds gauss p ! nat (years p * 12)"
  by (simp add: last_conv_nth run_trajectory_def trajectory_def del: upt_Suc)

lemma balance_first_year:
  "m < 12 \<Longrightarrow> balance (\<lambda>m. True) gauss l s c v m j = balance (\<lambda>m. m mod 12 \<noteq> 0) gauss l s c v m j"
  by (induction m) simp_all

lemma balance_skipping_below:
  assumes "0 \<le> c" "\<forall>m j. -1 \<le> l + s * gauss m j"
  shows "balance (\<lambda>m. m mod 12 \<noteq> 0) gauss l s c v m j \<le> balance (\<lambda>m. True) gauss l s c v m j"
proof (induction m)
  case 0
  show ?case by simp
next
  case (Suc m)
  have "-1 \<le> l + s * gauss (Suc m) j" using assms(2) by blast
  then have "0 \<le> 1 + (l + s * gauss (Suc m) j)" by linarith
  then have "balance (\<lambda>m. m mod 12 \<noteq> 0) gauss l s c v m j * (1 + (l + s * gauss (Suc m) j))
             \<le> balance (\<lambda>m. True) gauss l s c v m j * (1 + (l + s * gauss (Suc m) j))"
    using Suc.IH by (rule mult_right_mono[rotated])
  then show ?case using assms(1) by simp
qed

lemma run_trajectory_step:
  assumes "1 \<le> m" "m \<le> nat (years p * 12)" "j < nat (n_simulations p)"
  shows "run_trajectory adds gauss p ! m ! j
         = run_trajectory adds gauss p ! (m - 1) ! j
             * (1 + ((1 + annual_return p / 100) powr (1 / 12) - 1
                     + annual_volatility p / 100 / sqrt 12 * gauss m j))
           + (if adds m then monthly_contribution p else 0)"
proof -
  obtain k where k: "m = Suc k" using assms(1) by (cases m) auto
  have "k \<le> nat (years p * 12)" using assms(2) k by simp
  then show ?thesis
    using assms(2,3) unfolding k by (simp add: run_trajectory_nth)
qed

text \<open>
  C1. The two methods disagree on the timing of the contribution. On the same generator
  stream, for every parameter set with \<open>monthly_contribution > 0\<close> and \<open>years \<ge> 1\<close> on
  which the runs complete: \<open>app.py\<close> adds the contribution after the growth step of every
  month, \<open>monte_carlo.py\<close> adds nothing in the months with \<open>month % 12 == 0\<close> (the final
  month among them); the matrices agree up to month 11, differ by the contribution in
  every column at month 12, and so are different; and when no draw is below \<open>-1\<close> every
  final balance of \<open>app.py\<close> exceeds that of \<open>monte_carlo.py\<close> by at least the contribution,
  so the final balances differ too.
\<close>

theorem contribution_timing_differs:
  fixes p :: params and gauss :: "nat \<Rightarrow> nat \<Rightarrow> real"
  defines "draw \<equiv> \<lambda>m j. (1 + annual_return p / 100) powr (1 / 12) - 1
                          + annual_volatility p / 100 / sqrt 12 * gauss m j"
  assumes "completes p" "1 \<le> years p" "0 < monthly_contribution p"
  shows "\<exists>ra sa rm sm.
           app_run_simulation gauss p = Inr (ra, sa) \<and> mc_run_simulation gauss p = Inr (rm, sm) \<and>
           (\<forall>m j. 1 \<le> m \<and> m \<le> nat (years p * 12) \<and> j < nat (n_simulations p) \<longrightarrow>
              ra ! m ! j = ra ! (m - 1) ! j * (1 + draw m j) + monthly_contribution p \<and>
              rm ! m ! j = rm ! (m - 1) ! j * (1 + draw m j)
                           + (if m mod 12 = 0 then 0 else monthly_contribution p)) \<and>
           (\<forall>m<12. ra ! m = rm ! m) \<and>
           (\<forall>j<nat (n_simulations p). ra ! 12 ! j = rm ! 12 ! j + monthly_contribution p) \<and>
           ra \<noteq> rm \<and>
           ((\<forall>m j. -1 \<le> draw m j) \<longrightarrow>
              (\<forall>j<nat (n_simulations p). last rm ! j + monthly_contribution p \<le> last ra ! j) \<and>
              last ra \<noteq> last rm)"
proof -
  let ?ra = "run_trajectory (\<lambda>m. True) gauss p"
  let ?rm = "run_trajectory (\<lambda>m. m mod 12 \<noteq> 0) gauss p"
  let ?M = "nat (years p * 12)"
  let ?n = "nat (n_simulations p)"
  let ?c = "monthly_contribution p"
  have n: "0 < ?n" using assms(2) by (simp add: completes_def double_overflow_def)
  have M12: "12 \<le> ?M" using assms(3) by simp
  have Mmod: "?M mod 12 = 0"
  proof -
    have "?M = nat (years p) * 12" using assms(3) by (simp add: nat_mult_distrib)
    then show ?thesis by simp
  qed
  obtain sa where sa: "app_run_simulation gauss p = Inr (?ra, sa)"
    using app_run_simulation_completes[OF assms(2)] by blast
  obtain sm where sm: "mc_run_simulation gauss p = Inr (?rm, sm)"
    using mc_run_simulation_completes[OF assms(2)] by blast
  have step_app: "?ra ! m ! j = ?ra ! (m - 1) ! j * (1 + draw m j) + ?c"
    if "1 \<le> m \<and> m \<le> ?M \<and> j < ?n" for m j
    using run_trajectory_step[of m p j "\<lambda>m. True" gauss] that by (simp add: draw_def)
  have step_mc: "?rm ! m ! j = ?rm ! (m - 1) ! j * (1 + draw m j) + (if m mod 12 = 0 then 0 else ?c)"
    if "1 \<le> m \<and> m \<le> ?M \<and> j < ?n" for m j
    using run_trajectory_step[of m p j "\<lambda>m. m mod 12 \<noteq> 0" gauss] that by (simp add: draw_def)
  have first_year: "?ra ! m = ?rm ! m" if "m < 12" for m
  proof -
    have "m \<le> ?M" using that M12 by simp
    then show ?thesis
      using that by (simp add: run_trajectory_row balance_first_year)
  qed
  have month12: "?ra ! 12 ! j = ?rm ! 12 ! j + ?c" if "j < ?n" for j
  proof -
    have "?ra ! 12 ! j = ?ra ! 11 ! j * (1 + draw 12 j) + ?c"
      using step_app[of 12 j] that M12 by simp
    moreover have "?rm ! 12 ! j = ?rm ! 11 ! j * (1 + draw 12 j)"
      using step_mc[of 12 j] that M12 by simp
    moreover have "?ra ! 11 = ?rm ! 11" by (rule first_year) simp
    ultimately show ?thesis by simp
  qed
  have differ: "?ra \<noteq> ?rm"
  proof
    assume "?ra = ?rm"
    then have "?ra ! 12 ! 0 = ?rm ! 12 ! 0" by simp
    then show False using month12[OF n] assms(4) by simp
  qed
  have final: "(\<forall>j<?n. last ?rm ! j + ?c \<le> last ?ra ! j) \<and> last ?ra \<noteq> last ?rm"
    if draws: "\<forall>m j. -1 \<le> draw m j"
  proof -
    have M1: "1 \<le> ?M" using M12 by simp
    have le: "last ?rm ! j + ?c \<le> last ?ra ! j" if j: "j < ?n" for j
    proof -
      have prev: "?rm ! (?M - 1) ! j \<le> ?ra ! (?M - 1) ! j"
        using j assms(4) draws balance_skipping_below[of ?c _ _ gauss]
        by (simp add: run_trajectory_nth draw_def)
      have "-1 \<le> draw ?M j" using draws by blast
      then have "0 \<le> 1 + draw ?M j" by linarith
      then have "?rm ! (?M - 1) ! j * (1 + draw ?M j) \<le> ?ra ! (?M - 1) ! j * (1 + draw ?M j)"
        using prev by (rule mult_right_mono[rotated])
      moreover have "?ra ! ?M ! j = ?ra ! (?M - 1) ! j * (1 + draw ?M j) + ?c"
        using step_app[of ?M j] j M1 by simp
      moreover have "?rm ! ?M ! j = ?rm ! (?M - 1) ! j * (1 + draw ?M j)"
        using step_mc[of ?M j] j M1 Mmod by simp
      ultimately show ?thesis by (simp add: last_run_trajectory)
    qed
    have "last ?ra \<noteq> last ?rm"
    proof
      assume "last ?ra = last ?rm"
      then have "last ?ra ! 0 = last ?rm ! 0" by simp
      then show False using le[OF n] assms(4) by simp
    qed
    then show ?thesis using le by blast
  qed
  have "app_run_simulation gauss p = Inr (?ra, sa) \<and> mc_run_simulation gauss p = Inr (?rm, sm) \<and>
           (\<forall>m j. 1 \<le> m \<and> m \<le> ?M \<and> j < ?n \<longrightarrow>
              ?ra ! m ! j = ?ra ! (m - 1) ! j * (1 + draw m j) + ?c \<and>
              ?rm ! m ! j = ?rm ! (m - 1) ! j * (1 + draw m j)
                           + (if m mod 12 = 0 then 0 else ?c)) \<and>
           (\<forall>m<12. ?ra ! m = ?rm ! m) \<and>
           (\<forall>j<?n. ?ra ! 12 ! j = ?rm ! 12 ! j + ?c) \<and>
           ?ra \<noteq> ?rm \<and>
           ((\<forall>m j. -1 \<le> draw m j) \<longrightarrow>
              (\<forall>j<?n. last ?rm ! j + ?c \<le> last ?ra ! j) \<and> last ?ra \<noteq> last ?rm)"
    using sa sm step_app step_mc first_year month12 differ final by blast
  then show ?thesis by blast
qed

lemma balance_numeral:
  "balance adds gauss l s c v (numeral k) j =
     balance adds gauss l s c v (pred_numeral k) j * (1 + (l + s * gauss (numeral k) j))
     + (if adds (numeral k) then c else 0)"
  by (simp add: numeral_eq_Suc)

theorem contribution_timing_differs_witness:
  "\<exists>ra sa rm sm.
     app_run_simulation zero_gauss
       \<lparr>current_savings = 100, monthly_contribution = 10, years = 1, annual_return = 0,
        annual_volatility = 0, inflation_rate = 0, goal_amount = 0, n_simulations = 1\<rparr> = Inr (ra, sa) \<and>
     mc_run_simulation zero_gauss
       \<lparr>current_savings = 100, monthly_contribution = 10, years = 1, annual_return = 0,
        annual_volatility = 0, inflation_rate = 0, goal_amount = 0, n_simulations = 1\<rparr> = Inr (rm, sm) \<and>
     ra \<noteq> rm \<and> last ra \<noteq> last rm \<and> last ra = [220] \<and> last rm = [210]"
proof -
  let ?p = "\<lparr>current_savings = 100, monthly_contribution = 10, years = 1, annual_return = 0,
        annual_volatility = 0, inflation_rate = 0, goal_amount = 0, n_simulations = 1\<rparr>"
  have c: "completes ?p" and y: "1 \<le> years ?p" and m: "0 < monthly_contribution ?p"
    by (simp_all add: completes_def double_overflow_def)
  from contribution_timing_differs[OF c y m, of zero_gauss]
  obtain ra sa rm sm where runs: "app_run_simulation zero_gauss ?p = Inr (ra, sa)"
      "mc_run_simulation zero_gauss ?p = Inr (rm, sm)"
    and diff: "ra \<noteq> rm" "last ra \<noteq> last rm"
    by (auto simp: zero_gauss_def)
  have "ra = run_trajectory (\<lambda>m. True) zero_gauss ?p"
    using runs(1) by (simp add: app_run_simulation_Inr_iff)
  then have fa: "last ra = [220]"
    by (simp add: last_run_trajectory run_trajectory_row balance_numeral zero_gauss_def)
  have "rm = run_trajectory (\<lambda>m. m mod 12 \<noteq> 0) zero_gauss ?p"
    using runs(2) by (simp add: mc_run_simulation_Inr_iff)
  then have fm: "last rm = [210]"
    by (simp add: last_run_trajectory run_trajectory_row balance_numeral zero_gauss_def)
  show ?thesis using runs diff fa fm by blast
qed

subsection \<open>Rounding to binary64\<close>

lemma binade_eq:
  assumes "2 powi e \<le> \<bar>x\<bar>" "\<bar>x\<bar> < 2 powi (e + 1)" "- 1022 \<le> e"
  shows "binade x = e"
proof -
  have pos: "0 < \<bar>x\<bar>" using assms(1) by (smt (verit) zero_less_power_int)
  have a: "(2::real) powr real_of_int k = 2 powi k" for k
    by (rule powr_real_of_int') simp_all
  have b: "(2::real) powr (real_of_int e + 1) = 2 powi (e + 1)"
    using a[of "e + 1"] by simp
  have "(2::real) powr real_of_int e \<le> \<bar>x\<bar> \<and> \<bar>x\<bar> < 2 powr (real_of_int e + 1)"
    using assms(1,2) unfolding a b by simp
  then have "\<lfloor>log 2 \<bar>x\<bar>\<rfloor> = e"
    using floor_log_eq_powr_iff[OF pos, of 2 e] by simp
  then show ?thesis using assms(3) by (simp add: binade_def)
qed

lemma round64_eval:
  assumes "2 powi e \<le> \<bar>x\<bar>" "\<bar>x\<bar> < 2 powi (e + 1)" "- 1022 \<le> e"
  shows "round64 x = of_int (round_half_even (x / 2 powi (e - 52))) * 2 powi (e - 52)"
proof -
  have "x \<noteq> 0" using assms(1) by (smt (verit) zero_less_power_int)
  then show ?thesis by (simp add: round64_def binade_eq[OF assms])
qed

lemma round64_0 [simp]: "round64 0 = 0"
  by (simp add: round64_def)

lemma pairwise_sum_1: "pairwise_sum [a] = float_add 0 a"
  by (subst pairwise_sum.simps) simp

lemma pairwise_sum_3: "pairwise_sum [a, b, c] = float_add (float_add (float_add 0 a) b) c"
  by (subst pairwise_sum.simps) simp

lemma np_std_single:
  assumes "round64 x = x"
  shows "np_std [x] = 0"
proof -
  have mean: "float_mean [x] = x"
    by (simp add: float_mean_def pairwise_sum_1 float_add_def assms)
  have "float_mean [0] = 0"
    by (simp add: float_mean_def pairwise_sum_1 float_add_def)
  then show ?thesis
    by (simp add: np_std_def mean)
qed

text \<open>\<open>np.std\<close> of three tenths, operation by operation.\<close>

lemma tenth_1: "round64 tenth = tenth"
  unfolding tenth_def
  by (subst round64_eval[where e = "-4"]) (simp_all add: round_half_even_def power_int_minus)

lemma tenth_2: "round64 (tenth + tenth) = 3602879701896397 / 2 ^ 54"
  unfolding tenth_def
  by (subst round64_eval[where e = "-3"]) (simp_all add: round_half_even_def power_int_minus)

lemma tenth_3: "round64 (3602879701896397 / 2 ^ 54 + tenth) = 5404319552844596 / 2 ^ 54"
  unfolding tenth_def
  by (subst round64_eval[where e = "-2"]) (simp_all add: round_half_even_def power_int_minus)

lemma tenth_mean: "round64 (5404319552844596 / 2 ^ 54 / 3) = tenth + 1 / 2 ^ 56"
  unfolding tenth_def
  by (subst round64_eval[where e = "-4"]) (simp_all add: round_half_even_def power_int_minus)

lemma tenth_dev: "round64 (tenth - (tenth + 1 / 2 ^ 56)) = - (1 / 2 ^ 56)"
  by (subst round64_eval[where e = "-56"]) (simp_all add: round_half_even_def power_int_minus)

lemma tenth_sq: "round64 (- (1 / 2 ^ 56) * - (1 / 2 ^ 56)) = 1 / 2 ^ 112"
  by (subst round64_eval[where e = "-112"]) (simp_all add: round_half_even_def power_int_minus)

lemma tenth_sq1: "round64 (1 / 2 ^ 112) = 1 / 2 ^ 112"
  by (subst round64_eval[where e = "-112"]) (simp_all add: round_half_even_def power_int_minus)

lemma tenth_sq2: "round64 (1 / 2 ^ 112 + 1 / 2 ^ 112) = 1 / 2 ^ 111"
  by (subst round64_eval[where e = "-111"]) (simp_all add: round_half_even_def power_int_minus)

lemma tenth_sq3: "round64 (1 / 2 ^ 111 + 1 / 2 ^ 112) = 3 / 2 ^ 112"
  by (subst round64_eval[where e = "-111"]) (simp_all add: round_half_even_def power_int_minus)

lemma tenth_var: "round64 (3 / 2 ^ 112 / 3) = 1 / 2 ^ 112"
  by (subst round64_eval[where e = "-112"]) (simp_all add: round_half_even_def power_int_minus)

lemma tenth_sqrt: "round64 (sqrt (1 / 2 ^ 112)) = 1 / 2 ^ 56"
proof -
  have "sqrt (1 / 2 ^ 112) = sqrt ((1 / 2 ^ 56)\<^sup>2)"
    by (simp add: power_divide flip: power_mult)
  also have "\<dots> = 1 / 2 ^ 56" by (simp only: real_sqrt_abs) simp
  finally have s: "sqrt (1 / 2 ^ 112) = 1 / 2 ^ 56" .
  show ?thesis
    unfolding s
    by (subst round64_eval[where e = "-56"]) (simp_all add: round_half_even_def power_int_minus)
qed

lemma np_std_tenths: "np_std [tenth, tenth, tenth] = 1 / 2 ^ 56"
proof -
  let ?q = "1 / 2 ^ 112 :: real"
  have len: "real (length [a, b, c]) = 3" for a b c :: real by simp
  have sum: "pairwise_sum [tenth, tenth, tenth] = 5404319552844596 / 2 ^ 54"
    unfolding pairwise_sum_3 float_add_def by (simp only: add_0 tenth_1 tenth_2 tenth_3)
  have mean: "float_mean [tenth, tenth, tenth] = tenth + 1 / 2 ^ 56"
    unfolding float_mean_def sum len by (rule tenth_mean)
  have sq: "map (\<lambda>d. round64 (d * d)) (map (\<lambda>v. round64 (v - (tenth + 1 / 2 ^ 56))) [tenth, tenth, tenth])
            = [?q, ?q, ?q]"
    by (simp only: list.map tenth_dev tenth_sq)
  have sum2: "pairwise_sum [?q, ?q, ?q] = 3 / 2 ^ 112"
    unfolding pairwise_sum_3 float_add_def by (simp only: add_0 tenth_sq1 tenth_sq2 tenth_sq3)
  have var: "float_mean [?q, ?q, ?q] = ?q"
    unfolding float_mean_def sum2 len by (rule tenth_var)
  show ?thesis
    unfolding np_std_def Let_def mean sq var by (rule tenth_sqrt)
qed

subsection \<open>Runs without volatility\<close>

lemma balance_no_noise: "balance adds gauss l 0 c v m j = balance adds gauss l 0 c v m 0"
  by (induction m) simp_all

lemma no_noise_row:
  "map (balance adds gauss l 0 c v m) [0..<n] = replicate n (balance adds gauss l 0 c v m 0)"
proof (rule nth_equalityI)
  show "length (map (balance adds gauss l 0 c v m) [0..<n])
        = length (replicate n (balance adds gauss l 0 c v m 0))"
    by simp
next
  fix i
  assume "i < length (map (balance adds gauss l 0 c v m) [0..<n])"
  then have i: "i < n" by simp
  then have "map (balance adds gauss l 0 c v m) [0..<n] ! i = balance adds gauss l 0 c v m i"
    by simp
  also have "\<dots> = balance adds gauss l 0 c v m 0" by (rule balance_no_noise)
  also have "\<dots> = replicate n (balance adds gauss l 0 c v m 0) ! i" using i by simp
  finally show "map (balance adds gauss l 0 c v m) [0..<n] ! i
                = replicate n (balance adds gauss l 0 c v m 0) ! i" .
qed

lemma lerp_percentile_replicate:
  assumes "0 < n" "0 \<le> q" "q \<le> 100"
  shows "lerp_percentile (replicate n v) q = v"
proof -
  have srt: "sort (replicate n v) = replicate n v"
    by (rule sorted_sort_id) (simp add: sorted_replicate)
  define h where "h = real (n - 1) * (q / 100)"
  have "q / 100 \<le> 1" using assms by simp
  then have "real (n - 1) * (q / 100) \<le> real (n - 1) * 1"
    by (intro mult_left_mono) simp_all
  then have "h \<le> real (n - 1)" by (simp add: h_def)
  then have "\<lfloor>h\<rfloor> \<le> \<lfloor>real (n - 1)\<rfloor>" by (rule floor_mono)
  then have lo: "nat \<lfloor>h\<rfloor> < n" using assms(1) by simp
  have hi: "min (nat \<lfloor>h\<rfloor> + 1) (n - 1) < n" using assms(1) by simp
  show ?thesis
    unfolding lerp_percentile_def srt Let_def length_replicate h_def[symmetric]
    using lo hi by simp
qed

lemma run_trajectory_no_noise:
  assumes "annual_volatility p = 0" "row \<in> set (run_trajectory adds gauss p)"
  shows "\<exists>b. row = replicate (nat (n_simulations p)) b"
  using assms by (auto simp: run_trajectory_def trajectory_def no_noise_row)

lemma balance_idle: "balance adds gauss 0 0 0 v m j = v"
  by (induction m) simp_all

text \<open>
  C9, as stated, fails on the code in its last part. With \<open>annual_volatility = 0\<close>,
  \<open>annual_return = 0\<close>, no contribution, \<open>years = 1\<close>, \<open>n_simulations = 3\<close> and
  \<open>current_savings = 0.1\<close> every balance stays \<open>0.1\<close>, so the three columns are identical,
  and \<open>std_final_value\<close> is \<open>2 ^ -56\<close>, not 0: the sum of three tenths rounds up, the mean
  that \<open>np.std\<close> subtracts is one unit in the last place above a tenth, and the deviations
  do not vanish.
\<close>

theorem zero_volatility_std_counterexample:
  "map_sum id (last \<circ> fst)
     (mc_run_simulation zero_gauss
        \<lparr>current_savings = tenth, monthly_contribution = 0, years = 1, annual_return = 0,
         annual_volatility = 0, inflation_rate = 0, goal_amount = 0, n_simulations = 3\<rparr>)
   = Inr [tenth, tenth, tenth] \<and>
   map_sum id (std_final_value \<circ> snd)
     (mc_run_simulation zero_gauss
        \<lparr>current_savings = tenth, monthly_contribution = 0, years = 1, annual_return = 0,
         annual_volatility = 0, inflation_rate = 0, goal_amount = 0, n_simulations = 3\<rparr>)
   = Inr (1 / 2 ^ 56) \<and>
   map_sum id (last \<circ> fst)
     (app_run_simulation zero_gauss
        \<lparr>current_savings = tenth, monthly_contribution = 0, years = 1, annual_return = 0,
         annual_volatility = 0, inflation_rate = 0, goal_amount = 0, n_simulations = 3\<rparr>)
   = Inr [tenth, tenth, tenth] \<and>
   map_sum id (std_final_value \<circ> snd)
     (app_run_simulation zero_gauss
        \<lparr>current_savings = tenth, monthly_contribution = 0, years = 1, annual_return = 0,
         annual_volatility = 0, inflation_rate = 0, goal_amount = 0, n_simulations = 3\<rparr>)
   = Inr (1 / 2 ^ 56)"
proof -
  let ?p = "\<lparr>current_savings = tenth, monthly_contribution = 0, years = 1, annual_return = 0,
         annual_volatility = 0, inflation_rate = 0, goal_amount = 0, n_simulations = 3\<rparr>"
  have c: "completes ?p" by (simp add: completes_def double_overflow_def)
  have row: "last (run_trajectory adds zero_gauss ?p) = [tenth, tenth, tenth]" for adds
    by (simp add: last_run_trajectory run_trajectory_row balance_idle upt_rec)
  obtain sm where sm: "mc_run_simulation zero_gauss ?p
                       = Inr (run_trajectory (\<lambda>m. m mod 12 \<noteq> 0) zero_gauss ?p, sm)"
    and "std_final_value sm = np_std [tenth, tenth, tenth]"
    using mc_run_simulation_summary[OF c, of zero_gauss]
    by (auto simp: row mc_statistics_nonempty)
  moreover obtain sa where sa: "app_run_simulation zero_gauss ?p
                       = Inr (run_trajectory (\<lambda>m. True) zero_gauss ?p, sa)"
    and "std_final_value sa = np_std [tenth, tenth, tenth]"
    using app_run_simulation_summary[OF c, of zero_gauss]
    by (auto simp: row app_statistics_nonempty)
  ultimately show ?thesis
    by (simp add: row np_std_tenths)
qed

text \<open>
  C9, amended. With \<open>annual_volatility = 0\<close> every draw of every monthly call equals
  \<open>monthly_return\<close>, whatever the generator yields; in every run that completes, the entries
  of each row of the matrix are all equal (the columns are identical at every month), and
  the summary has \<open>min_value = max_value = median_final_value\<close>. Nothing is said of
  \<open>std_final_value\<close>, which is the rounding error of the mean and need not be 0.
\<close>

theorem zero_volatility_identical_columns:
  assumes "completes p" "annual_volatility p = 0"
  shows "(1 \<le> years p \<longrightarrow>
            (\<forall>month. random_normal (gauss month)
               (map_option (\<lambda>r. r - 1) (float_pow_frac (1 + annual_return p / 100) (1 / 12)))
               (annual_volatility p / 100 / sqrt 12) (nat (n_simulations p))
             = Inr (replicate (nat (n_simulations p))
                      ((1 + annual_return p / 100) powr (1 / 12) - 1)))) \<and>
         (\<exists>r s. mc_run_simulation gauss p = Inr (r, s) \<and>
            (\<forall>row\<in>set r. \<forall>x\<in>set row. \<forall>y\<in>set row. x = y) \<and>
            min_value s = max_value s \<and> max_value s = median_final_value s) \<and>
         (\<exists>r s. app_run_simulation gauss p = Inr (r, s) \<and>
            (\<forall>row\<in>set r. \<forall>x\<in>set row. \<forall>y\<in>set row. x = y) \<and>
            min_value s = max_value s \<and> max_value s = median_final_value s)"
proof -
  have n: "0 < nat (n_simulations p)" using assms(1) by (simp add: completes_def double_overflow_def)
  have draws: "1 \<le> years p \<longrightarrow>
            (\<forall>month. random_normal (gauss month)
               (map_option (\<lambda>r. r - 1) (float_pow_frac (1 + annual_return p / 100) (1 / 12)))
               (annual_volatility p / 100 / sqrt 12) (nat (n_simulations p))
             = Inr (replicate (nat (n_simulations p))
                      ((1 + annual_return p / 100) powr (1 / 12) - 1)))"
  proof (intro impI allI)
    fix month
    assume "1 \<le> years p"
    then have "0 \<le> 1 + annual_return p / 100" using assms(1) by (simp add: completes_def double_overflow_def)
    then show "random_normal (gauss month)
               (map_option (\<lambda>r. r - 1) (float_pow_frac (1 + annual_return p / 100) (1 / 12)))
               (annual_volatility p / 100 / sqrt 12) (nat (n_simulations p))
             = Inr (replicate (nat (n_simulations p))
                      ((1 + annual_return p / 100) powr (1 / 12) - 1))"
      using assms(2) by (simp add: random_normal_def float_pow_frac_def map_replicate_const)
  qed
  have cols: "\<forall>row\<in>set (run_trajectory adds gauss p). \<forall>x\<in>set row. \<forall>y\<in>set row. x = y" for adds
    using run_trajectory_no_noise[OF assms(2), of _ adds gauss] by fastforce
  have stats: "Min (set fv) = Max (set fv) \<and> Max (set fv) = lerp_percentile fv 50"
    if "fv = last (run_trajectory adds gauss p)" for adds fv
  proof -
    have "run_trajectory adds gauss p \<noteq> []" by (simp add: run_trajectory_def trajectory_def)
    then have "fv \<in> set (run_trajectory adds gauss p)" using that by simp
    then obtain b where "fv = replicate (nat (n_simulations p)) b"
      using run_trajectory_no_noise[OF assms(2)] by blast
    then show ?thesis
      using n by (simp add: lerp_percentile_replicate)
  qed
  obtain sm where sm: "mc_run_simulation gauss p = Inr (run_trajectory (\<lambda>m. m mod 12 \<noteq> 0) gauss p, sm)"
    "min_value sm = max_value sm \<and> max_value sm = median_final_value sm"
    using mc_run_simulation_summary[OF assms(1), of gauss] stats[OF refl, of "\<lambda>m. m mod 12 \<noteq> 0"]
    by (auto simp: mc_statistics_nonempty)
  obtain sa where sa: "app_run_simulation gauss p = Inr (run_trajectory (\<lambda>m. True) gauss p, sa)"
    "min_value sa = max_value sa \<and> max_value sa = median_final_value sa"
    using app_run_simulation_summary[OF assms(1), of gauss] stats[OF refl, of "\<lambda>m. True"]
    by (auto simp: app_statistics_nonempty)
  have mc: "\<exists>r s. mc_run_simulation gauss p = Inr (r, s) \<and>
            (\<forall>row\<in>set r. \<forall>x\<in>set row. \<forall>y\<in>set row. x = y) \<and>
            min_value s = max_value s \<and> max_value s = median_final_value s"
    using sm cols[of "\<lambda>m. m mod 12 \<noteq> 0"]
    by (intro exI[of _ "run_trajectory (\<lambda>m. m mod 12 \<noteq> 0) gauss p"] exI[of _ sm] conjI)
       simp_all
  have app: "\<exists>r s. app_run_simulation gauss p = Inr (r, s) \<and>
            (\<forall>row\<in>set r. \<forall>x\<in>set row. \<forall>y\<in>set row. x = y) \<and>
            min_value s = max_value s \<and> max_value s = median_final_value s"
    using sa cols[of "\<lambda>m. True"]
    by (intro exI[of _ "run_trajectory (\<lambda>m. True) gauss p"] exI[of _ sa] conjI)
       simp_all
  show ?thesis
    using draws mc app by (intro conjI)
qed

theorem zero_volatility_identical_columns_witness:
  "(\<exists>r s. mc_run_simulation (\<lambda>month j. real (month + j))
       \<lparr>current_savings = 100, monthly_contribution = 10, years = 1, annual_return = 0,
        annual_volatility = 0, inflation_rate = 0, goal_amount = 0, n_simulations = 3\<rparr> = Inr (r, s) \<and>
       (\<forall>row\<in>set r. \<forall>x\<in>set row. \<forall>y\<in>set row. x = y) \<and>
       min_value s = max_value s \<and> max_value s = median_final_value s) \<and>
   (\<exists>r s. app_run_simulation (\<lambda>month j. real (month + j))
       \<lparr>current_savings = 100, monthly_contribution = 10, years = 1, annual_return = 0,
        annual_volatility = 0, inflation_rate = 0, goal_amount = 0, n_simulations = 3\<rparr> = Inr (r, s) \<and>
       (\<forall>row\<in>set r. \<forall>x\<in>set row. \<forall>y\<in>set row. x = y) \<and>
       min_value s = max_value s \<and> max_value s = median_final_value s)"
proof -
  let ?p = "\<lparr>current_savings = 100, monthly_contribution = 10, years = 1, annual_return = 0,
        annual_volatility = 0, inflation_rate = 0, goal_amount = 0, n_simulations = 3\<rparr>"
  have c: "completes ?p" and v: "annual_volatility ?p = 0" by (simp_all add: completes_def double_overflow_def)
  show ?thesis
    by (rule zero_volatility_identical_columns[OF c v, of "\<lambda>month j. real (month + j)",
          THEN conjunct2])
qed

subsection \<open>When a run completes\<close>

lemma lerp_percentile_single: "lerp_percentile [x] q = x"
  by (simp add: lerp_percentile_def)

lemma round64_50000: "round64 50000 = 50000"
  by (subst round64_eval[where e = 15]) (simp_all add: round_half_even_def)

lemma np_std_50000: "np_std [50000] = 0"
  by (rule np_std_single) (rule round64_50000)

lemma thirty_thousand_years_overflow: "double_overflow \<le> \<bar>(41 / 40 :: real) ^ 30000\<bar>"
proof -
  have two: "(2::real) \<le> (41 / 40) ^ 29"
    by (simp add: power_divide)
  have "double_overflow \<le> (2::real) ^ 1034" by (simp add: double_overflow_def)
  also have "\<dots> \<le> ((41 / 40) ^ 29) ^ 1034"
    using two by (rule power_mono) simp
  also have "\<dots> = (41 / 40 :: real) ^ 29986" by (simp flip: power_mult)
  also have "\<dots> \<le> (41 / 40 :: real) ^ 30000"
    by (rule power_increasing) simp_all
  finally show ?thesis by simp
qed

lemma sum_finite_floats:
  "foldl float_plus (Finite a) (map Finite ys) = Finite (a + sum_list ys)"
  by (induction ys arbitrary: a) (simp_all add: add.assoc)

lemma np_mean_floats_finite:
  assumes "ys \<noteq> []"
  shows "np_mean_floats (map Finite ys) = Finite (np_mean ys)"
  using assms by (simp add: np_mean_floats_def sum_finite_floats np_mean_def)

lemma mc_statistics_goal_nonempty:
  assumes "fv \<noteq> []"
  shows "mc_statistics_goal g n fv =
           Inr \<lparr>gs_success_probability = real (length (filter (reaches g) fv)) / real_of_int n * 100,
                gs_future_goal = g,
                gs_median_final_value = lerp_percentile fv 50,
                gs_mean_final_value = np_mean fv,
                gs_std_final_value = np_std fv,
                gs_percentiles = \<lparr>p5th = lerp_percentile fv 5, p25th = lerp_percentile fv 25,
                  p50th = lerp_percentile fv 50, p75th = lerp_percentile fv 75,
                  p95th = lerp_percentile fv 95\<rparr>,
                gs_min_value = Min (set fv),
                gs_max_value = Max (set fv),
                gs_avg_shortfall =
                  (if filter (falls_short g) fv = [] then Finite 0
                   else np_mean_floats (map (float_minus g) (filter (falls_short g) fv))),
                gs_shortfall_probability =
                  100 - real (length (filter (reaches g) fv)) / real_of_int n * 100\<rparr>"
  using assms
  by (simp add: mc_statistics_goal_def percentile_dict_nonempty np_min_def np_max_def Let_def)

lemma mc_statistics_goal_empty: "mc_statistics_goal g n [] = Inl IndexError"
  by (simp add: mc_statistics_goal_def percentile_dict_empty Let_def)

lemma app_statistics_goal_nonempty:
  assumes "fv \<noteq> []"
  shows "app_statistics_goal g n fv =
           Inr \<lparr>gs_success_probability = real (length (filter (reaches g) fv)) / real_of_int n * 100,
                gs_future_goal = g,
                gs_median_final_value = lerp_percentile fv 50,
                gs_mean_final_value = np_mean fv,
                gs_std_final_value = np_std fv,
                gs_percentiles = \<lparr>p5th = lerp_percentile fv 5, p25th = lerp_percentile fv 25,
                  p50th = lerp_percentile fv 50, p75th = lerp_percentile fv 75,
                  p95th = lerp_percentile fv 95\<rparr>,
                gs_min_value = Min (set fv),
                gs_max_value = Max (set fv),
                gs_n_simulations = n\<rparr>"
  using assms
  by (simp add: app_statistics_goal_def percentile_dict_nonempty np_min_def np_max_def Let_def)

lemma app_statistics_goal_empty: "app_statistics_goal g n [] = Inl IndexError"
  by (simp add: app_statistics_goal_def percentile_dict_empty Let_def)

text \<open>On a finite goal the statistics are those of \<open>mc_statistics\<close> and \<open>app_statistics\<close>.\<close>

lemma mc_statistics_goal_finite:
  assumes "mc_statistics g n fv = Inr s"
  shows "\<exists>t. mc_statistics_goal (Finite g) n fv = Inr t \<and>
           gs_success_probability t = success_probability s \<and>
           gs_future_goal t = Finite (future_goal s) \<and>
           gs_median_final_value t = median_final_value s \<and>
           gs_mean_final_value t = mean_final_value s \<and>
           gs_std_final_value t = std_final_value s \<and>
           gs_percentiles t = percentiles s \<and>
           gs_min_value t = min_value s \<and> gs_max_value t = max_value s \<and>
           gs_avg_shortfall t = Finite (avg_shortfall s) \<and>
           gs_shortfall_probability t = shortfall_probability s"
proof -
  have ne: "fv \<noteq> []" using assms mc_statistics_empty[of g n] by auto
  have r: "reaches (Finite g) = (\<lambda>b. g \<le> b)" and f: "falls_short (Finite g) = (\<lambda>b. b < g)"
    and m: "float_minus (Finite g) = (\<lambda>b. Finite (g - b))"
    by (simp_all add: fun_eq_iff)
  have avg: "np_mean_floats (map (\<lambda>b. Finite (g - b)) ys) = Finite (np_mean (map (\<lambda>b. g - b) ys))"
    if "ys \<noteq> []" for ys
    using np_mean_floats_finite[of "map (\<lambda>b. g - b) ys"] that by (simp add: comp_def)
  show ?thesis
    using assms
    by (auto simp: mc_statistics_nonempty[OF ne] mc_statistics_goal_nonempty[OF ne] r f m avg
        count_ge_def below_def)
qed

lemma app_statistics_goal_finite:
  assumes "app_statistics g n fv = Inr s"
  shows "\<exists>t. app_statistics_goal (Finite g) n fv = Inr t \<and>
           gs_success_probability t = success_probability s \<and>
           gs_future_goal t = Finite (future_goal s) \<and>
           gs_median_final_value t = median_final_value s \<and>
           gs_mean_final_value t = mean_final_value s \<and>
           gs_std_final_value t = std_final_value s \<and>
           gs_percentiles t = percentiles s \<and>
           gs_min_value t = min_value s \<and> gs_max_value t = max_value s \<and>
           gs_n_simulations t = summary_n_simulations s"
proof -
  have ne: "fv \<noteq> []" using assms app_statistics_empty[of g n] by auto
  have r: "reaches (Finite g) = (\<lambda>b. g \<le> b)" by (simp add: fun_eq_iff)
  show ?thesis
    using assms
    by (auto simp: app_statistics_nonempty[OF ne] app_statistics_goal_nonempty[OF ne] r count_ge_def)
qed

lemma mc_run_simulation_goal_gen:
  "mc_run_simulation_goal gauss p g
   = gen_run (\<lambda>m. m mod 12 \<noteq> 0) (\<lambda>f. mc_statistics_goal (float_times g f)) gauss p"
  by (simp add: mc_run_simulation_goal_def gen_run_def gen_paths_def Let_def then_do_assoc
        mc_months_gen)

lemma app_run_simulation_goal_gen:
  "app_run_simulation_goal gauss p g
   = gen_run (\<lambda>m. True) (\<lambda>f. app_statistics_goal (float_times g f)) gauss p"
  by (simp add: app_run_simulation_goal_def gen_run_def gen_paths_def Let_def then_do_assoc
        app_months_gen)

lemma mc_run_simulation_goal_Inr_iff:
  "mc_run_simulation_goal gauss p g = Inr (r, s) \<longleftrightarrow>
     completes p \<and> r = run_trajectory (\<lambda>m. m mod 12 \<noteq> 0) gauss p \<and>
     mc_statistics_goal (float_times g ((1 + inflation_rate p / 100) ^ nat (years p)))
       (n_simulations p) (last r) = Inr s"
  unfolding mc_run_simulation_goal_gen
  by (rule gen_run_Inr_iff) (simp add: mc_statistics_goal_empty)

lemma app_run_simulation_goal_Inr_iff:
  "app_run_simulation_goal gauss p g = Inr (r, s) \<longleftrightarrow>
     completes p \<and> r = run_trajectory (\<lambda>m. True) gauss p \<and>
     app_statistics_goal (float_times g ((1 + inflation_rate p / 100) ^ nat (years p)))
       (n_simulations p) (last r) = Inr s"
  unfolding app_run_simulation_goal_gen
  by (rule gen_run_Inr_iff) (simp add: app_statistics_goal_empty)

text \<open>With a finite goal the two models of each method are the same run.\<close>

lemma mc_run_simulation_goal_finite:
  assumes "mc_run_simulation gauss p = Inr (r, s)"
  shows "\<exists>t. mc_run_simulation_goal gauss p (Finite (goal_amount p)) = Inr (r, t) \<and>
           gs_success_probability t = success_probability s \<and>
           gs_future_goal t = Finite (future_goal s) \<and>
           gs_avg_shortfall t = Finite (avg_shortfall s)"
  using assms mc_statistics_goal_finite
  by (fastforce simp: mc_run_simulation_Inr_iff mc_run_simulation_goal_Inr_iff)

lemma app_run_simulation_goal_finite:
  assumes "app_run_simulation gauss p = Inr (r, s)"
  shows "\<exists>t. app_run_simulation_goal gauss p (Finite (goal_amount p)) = Inr (r, t) \<and>
           gs_success_probability t = success_probability s \<and>
           gs_future_goal t = Finite (future_goal s)"
  using assms app_statistics_goal_finite
  by (fastforce simp: app_run_simulation_Inr_iff app_run_simulation_goal_Inr_iff)

text \<open>
  C2, as stated, fails on the code. Neither method checks its parameters, and no error
  called InvalidParameter exists. With \<open>years = 0\<close> and otherwise the default parameters
  the run completes and returns a summary over the single row of \<open>current_savings\<close>, and it
  does so as well when \<open>goal_amount\<close> is infinite or NaN. With \<open>n_simulations = 1\<close> and
  finite fields the run raises \<open>TypeError\<close> for \<open>annual_return = -200\<close> (the monthly return
  is complex) and \<open>ValueError\<close> for \<open>annual_volatility = -15\<close>, both from
  \<open>np.random.normal\<close> in the first month, and \<open>OverflowError\<close> for \<open>years = 30000\<close>, where
  \<open>1.025 ** 30000\<close> leaves the range of a double.
\<close>

theorem no_parameter_validation_counterexample:
  "mc_run_simulation zero_gauss
     \<lparr>current_savings = 50000, monthly_contribution = 1000, years = 0, annual_return = 7,
      annual_volatility = 15, inflation_rate = 5 / 2, goal_amount = 1500000, n_simulations = 1\<rparr>
   = Inr ([[50000]],
       \<lparr>success_probability = 0, future_goal = 1500000, median_final_value = 50000,
        mean_final_value = 50000, std_final_value = 0,
        percentiles = \<lparr>p5th = 50000, p25th = 50000, p50th = 50000, p75th = 50000, p95th = 50000\<rparr>,
        min_value = 50000, max_value = 50000, avg_shortfall = 1450000,
        shortfall_probability = 100\<rparr>) \<and>
   app_run_simulation zero_gauss
     \<lparr>current_savings = 50000, monthly_contribution = 1000, years = 0, annual_return = 7,
      annual_volatility = 15, inflation_rate = 5 / 2, goal_amount = 1500000, n_simulations = 1\<rparr>
   = Inr ([[50000]],
       \<lparr>success_probability = 0, future_goal = 1500000, median_final_value = 50000,
        mean_final_value = 50000, std_final_value = 0,
        percentiles = \<lparr>p5th = 50000, p25th = 50000, p50th = 50000, p75th = 50000, p95th = 50000\<rparr>,
        min_value = 50000, max_value = 50000, summary_n_simulations = 1\<rparr>) \<and>
   mc_run_simulation_goal zero_gauss
     \<lparr>current_savings = 50000, monthly_contribution = 1000, years = 0, annual_return = 7,
      annual_volatility = 15, inflation_rate = 5 / 2, goal_amount = 1500000, n_simulations = 1\<rparr>
     PosInf
   = Inr ([[50000]],
       \<lparr>gs_success_probability = 0, gs_future_goal = PosInf, gs_median_final_value = 50000,
        gs_mean_final_value = 50000, gs_std_final_value = 0,
        gs_percentiles = \<lparr>p5th = 50000, p25th = 50000, p50th = 50000, p75th = 50000, p95th = 50000\<rparr>,
        gs_min_value = 50000, gs_max_value = 50000, gs_avg_shortfall = PosInf,
        gs_shortfall_probability = 100\<rparr>) \<and>
   app_run_simulation_goal zero_gauss
     \<lparr>current_savings = 50000, monthly_contribution = 1000, years = 0, annual_return = 7,
      annual_volatility = 15, inflation_rate = 5 / 2, goal_amount = 1500000, n_simulations = 1\<rparr>
     NaN
   = Inr ([[50000]],
       \<lparr>gs_success_probability = 0, gs_future_goal = NaN, gs_median_final_value = 50000,
        gs_mean_final_value = 50000, gs_std_final_value = 0,
        gs_percentiles = \<lparr>p5th = 50000, p25th = 50000, p50th = 50000, p75th = 50000, p95th = 50000\<rparr>,
        gs_min_value = 50000, gs_max_value = 50000, gs_n_simulations = 1\<rparr>) \<and>
   mc_run_simulation zero_gauss
     \<lparr>current_savings = 50000, monthly_contribution = 1000, years = 1, annual_return = -200,
      annual_volatility = 15, inflation_rate = 5 / 2, goal_amount = 1500000, n_simulations = 1\<rparr>
   = Inl TypeError \<and>
   app_run_simulation zero_gauss
     \<lparr>current_savings = 50000, monthly_contribution = 1000, years = 1, annual_return = -200,
      annual_volatility = 15, inflation_rate = 5 / 2, goal_amount = 1500000, n_simulations = 1\<rparr>
   = Inl TypeError \<and>
   mc_run_simulation zero_gauss
     \<lparr>current_savings = 50000, monthly_contribution = 1000, years = 1, annual_return = 7,
      annual_volatility = -15, inflation_rate = 5 / 2, goal_amount = 1500000, n_simulations = 1\<rparr>
   = Inl ValueError \<and>
   app_run_simulation zero_gauss
     \<lparr>current_savings = 50000, monthly_contribution = 1000, years = 1, annual_return = 7,
      annual_volatility = -15, inflation_rate = 5 / 2, goal_amount = 1500000, n_simulations = 1\<rparr>
   = Inl ValueError \<and>
   mc_run_simulation zero_gauss
     \<lparr>current_savings = 50000, monthly_contribution = 1000, years = 30000, annual_return = 7,
      annual_volatility = 15, inflation_rate = 5 / 2, goal_amount = 1500000, n_simulations = 1\<rparr>
   = Inl OverflowError \<and>
   app_run_simulation zero_gauss
     \<lparr>current_savings = 50000, monthly_contribution = 1000, years = 30000, annual_return = 7,
      annual_volatility = 15, inflation_rate = 5 / 2, goal_amount = 1500000, n_simulations = 1\<rparr>
   = Inl OverflowError"
proof (intro conjI)
  show "mc_run_simulation zero_gauss
     \<lparr>current_savings = 50000, monthly_contribution = 1000, years = 0, annual_return = 7,
      annual_volatility = 15, inflation_rate = 5 / 2, goal_amount = 1500000, n_simulations = 1\<rparr>
   = Inr ([[50000]],
       \<lparr>success_probability = 0, future_goal = 1500000, median_final_value = 50000,
        mean_final_value = 50000, std_final_value = 0,
        percentiles = \<lparr>p5th = 50000, p25th = 50000, p50th = 50000, p75th = 50000, p95th = 50000\<rparr>,
        min_value = 50000, max_value = 50000, avg_shortfall = 1450000,
        shortfall_probability = 100\<rparr>)"
    by (simp add: mc_run_simulation_def float_pow_int_def double_overflow_def np_zeros_def
          set_row0_def mc_statistics_nonempty lerp_percentile_single np_std_50000 np_mean_def
          count_ge_def below_def)
  show "app_run_simulation zero_gauss
     \<lparr>current_savings = 50000, monthly_contribution = 1000, years = 0, annual_return = 7,
      annual_volatility = 15, inflation_rate = 5 / 2, goal_amount = 1500000, n_simulations = 1\<rparr>
   = Inr ([[50000]],
       \<lparr>success_probability = 0, future_goal = 1500000, median_final_value = 50000,
        mean_final_value = 50000, std_final_value = 0,
        percentiles = \<lparr>p5th = 50000, p25th = 50000, p50th = 50000, p75th = 50000, p95th = 50000\<rparr>,
        min_value = 50000, max_value = 50000, summary_n_simulations = 1\<rparr>)"
    by (simp add: app_run_simulation_def float_pow_int_def double_overflow_def np_zeros_def
          set_row0_def app_statistics_nonempty lerp_percentile_single np_std_50000 np_mean_def
          count_ge_def)
  show "mc_run_simulation_goal zero_gauss
     \<lparr>current_savings = 50000, monthly_contribution = 1000, years = 0, annual_return = 7,
      annual_volatility = 15, inflation_rate = 5 / 2, goal_amount = 1500000, n_simulations = 1\<rparr>
     PosInf
   = Inr ([[50000]],
       \<lparr>gs_success_probability = 0, gs_future_goal = PosInf, gs_median_final_value = 50000,
        gs_mean_final_value = 50000, gs_std_final_value = 0,
        gs_percentiles = \<lparr>p5th = 50000, p25th = 50000, p50th = 50000, p75th = 50000, p95th = 50000\<rparr>,
        gs_min_value = 50000, gs_max_value = 50000, gs_avg_shortfall = PosInf,
        gs_shortfall_probability = 100\<rparr>)"
    by (simp add: mc_run_simulation_goal_def float_pow_int_def double_overflow_def np_zeros_def
          set_row0_def mc_statistics_goal_nonempty lerp_percentile_single np_std_50000
          np_mean_def np_mean_floats_def)
  show "app_run_simulation_goal zero_gauss
     \<lparr>current_savings = 50000, monthly_contribution = 1000, years = 0, annual_return = 7,
      annual_volatility = 15, inflation_rate = 5 / 2, goal_amount = 1500000, n_simulations = 1\<rparr>
     NaN
   = Inr ([[50000]],
       \<lparr>gs_success_probability = 0, gs_future_goal = NaN, gs_median_final_value = 50000,
        gs_mean_final_value = 50000, gs_std_final_value = 0,
        gs_percentiles = \<lparr>p5th = 50000, p25th = 50000, p50th = 50000, p75th = 50000, p95th = 50000\<rparr>,
        gs_min_value = 50000, gs_max_value = 50000, gs_n_simulations = 1\<rparr>)"
    by (simp add: app_run_simulation_goal_def float_pow_int_def double_overflow_def np_zeros_def
          set_row0_def app_statistics_goal_nonempty lerp_percentile_single np_std_50000
          np_mean_def)
  show "mc_run_simulation zero_gauss
     \<lparr>current_savings = 50000, monthly_contribution = 1000, years = 1, annual_return = -200,
      annual_volatility = 15, inflation_rate = 5 / 2, goal_amount = 1500000, n_simulations = 1\<rparr>
   = Inl TypeError"
    by (simp add: mc_run_simulation_paths float_pow_int_def double_overflow_def
          float_pow_frac_def gen_paths_complex)
  show "app_run_simulation zero_gauss
     \<lparr>current_savings = 50000, monthly_contribution = 1000, years = 1, annual_return = -200,
      annual_volatility = 15, inflation_rate = 5 / 2, goal_amount = 1500000, n_simulations = 1\<rparr>
   = Inl TypeError"
    by (simp add: app_run_simulation_paths float_pow_int_def double_overflow_def
          float_pow_frac_def gen_paths_complex)
  show "mc_run_simulation zero_gauss
     \<lparr>current_savings = 50000, monthly_contribution = 1000, years = 1, annual_return = 7,
      annual_volatility = -15, inflation_rate = 5 / 2, goal_amount = 1500000, n_simulations = 1\<rparr>
   = Inl ValueError"
    by (simp add: mc_run_simulation_paths float_pow_int_def double_overflow_def
          float_pow_frac_def gen_paths_negative_scale)
  show "app_run_simulation zero_gauss
     \<lparr>current_savings = 50000, monthly_contribution = 1000, years = 1, annual_return = 7,
      annual_volatility = -15, inflation_rate = 5 / 2, goal_amount = 1500000, n_simulations = 1\<rparr>
   = Inl ValueError"
    by (simp add: app_run_simulation_paths float_pow_int_def double_overflow_def
          float_pow_frac_def gen_paths_negative_scale)
  have pow: "float_pow_int (1 + (5 / 2) / 100) 30000 = Inl OverflowError"
  proof -
    have "(1 + (5 / 2) / 100 :: real) powi 30000 = (41 / 40) ^ 30000"
      by (simp add: power_int_nonneg_exp)
    then show ?thesis
      using thirty_thousand_years_overflow
      by (simp only: float_pow_int_def) (simp add: double_overflow_def)
  qed
  show "mc_run_simulation zero_gauss
     \<lparr>current_savings = 50000, monthly_contribution = 1000, years = 30000, annual_return = 7,
      annual_volatility = 15, inflation_rate = 5 / 2, goal_amount = 1500000, n_simulations = 1\<rparr>
   = Inl OverflowError"
    unfolding mc_run_simulation_paths by (simp only: params.simps pow then_do_Inl)
  show "app_run_simulation zero_gauss
     \<lparr>current_savings = 50000, monthly_contribution = 1000, years = 30000, annual_return = 7,
      annual_volatility = 15, inflation_rate = 5 / 2, goal_amount = 1500000, n_simulations = 1\<rparr>
   = Inl OverflowError"
    unfolding app_run_simulation_paths by (simp only: params.simps pow then_do_Inl)
qed

text \<open>
  C2, amended. \<open>run_simulation\<close> validates nothing; every failure is an exception of
  Python or NumPy. With finite fields, and with any \<open>goal_amount\<close>, finite or not, a run
  completes if and only if \<open>years \<ge> 0\<close>, \<open>n_simulations \<ge> 1\<close>, the inflation factor
  \<open>(1 + inflation_rate / 100) ** years\<close> stays in the range of a double and, when
  \<open>years \<ge> 1\<close>, \<open>annual_return \<ge> -100\<close> and \<open>annual_volatility \<ge> 0\<close>. The allocation of
  the matrix is taken to succeed.
\<close>

theorem run_simulation_completes_iff:
  "(completes p \<longleftrightarrow>
      0 \<le> years p \<and> 1 \<le> n_simulations p \<and>
      real_of_int (years p) < double_overflow \<and>
      \<bar>(1 + inflation_rate p / 100) ^ nat (years p)\<bar> < double_overflow \<and>
      (1 \<le> years p \<longrightarrow> -100 \<le> annual_return p \<and> 0 \<le> annual_volatility p)) \<and>
   ((\<exists>r s. mc_run_simulation gauss p = Inr (r, s)) \<longleftrightarrow> completes p) \<and>
   ((\<exists>r s. app_run_simulation gauss p = Inr (r, s)) \<longleftrightarrow> completes p) \<and>
   ((\<exists>r s. mc_run_simulation_goal gauss p g = Inr (r, s)) \<longleftrightarrow> completes p) \<and>
   ((\<exists>r s. app_run_simulation_goal gauss p g = Inr (r, s)) \<longleftrightarrow> completes p)"
proof -
  have ne: "last (run_trajectory adds gauss p) \<noteq> []" if "completes p" for adds
    using that by (rule gen_run_completes(2))
  have "(\<exists>r s. mc_run_simulation gauss p = Inr (r, s)) \<longleftrightarrow> completes p"
    using mc_run_simulation_completes[of p gauss] by (auto simp: mc_run_simulation_Inr_iff)
  moreover have "(\<exists>r s. app_run_simulation gauss p = Inr (r, s)) \<longleftrightarrow> completes p"
    using app_run_simulation_completes[of p gauss] by (auto simp: app_run_simulation_Inr_iff)
  moreover have "(\<exists>r s. mc_run_simulation_goal gauss p g = Inr (r, s)) \<longleftrightarrow> completes p"
    using ne[of "\<lambda>m. m mod 12 \<noteq> 0"]
    by (auto simp: mc_run_simulation_goal_Inr_iff mc_statistics_goal_nonempty)
  moreover have "(\<exists>r s. app_run_simulation_goal gauss p g = Inr (r, s)) \<longleftrightarrow> completes p"
    using ne[of "\<lambda>m. True"]
    by (auto simp: app_run_simulation_goal_Inr_iff app_statistics_goal_nonempty)
  ultimately show ?thesis
    by (simp add: completes_def)
qed

theorem run_simulation_completes_iff_witness:
  "(\<exists>r s. mc_run_simulation zero_gauss
      \<lparr>current_savings = 50000, monthly_contribution = 1000, years = 30, annual_return = 7,
       annual_volatility = 15, inflation_rate = 5 / 2, goal_amount = 1500000,
       n_simulations = 10000\<rparr> = Inr (r, s)) \<and>
   (\<exists>r s. app_run_simulation zero_gauss
      \<lparr>current_savings = 50000, monthly_contribution = 1000, years = 30, annual_return = 7,
       annual_volatility = 15, inflation_rate = 5 / 2, goal_amount = 1500000,
       n_simulations = 10000\<rparr> = Inr (r, s)) \<and>
   (\<exists>r s. mc_run_simulation_goal zero_gauss
      \<lparr>current_savings = 50000, monthly_contribution = 1000, years = 30, annual_return = 7,
       annual_volatility = 15, inflation_rate = 5 / 2, goal_amount = 1500000,
       n_simulations = 10000\<rparr> PosInf = Inr (r, s)) \<and>
   (\<exists>r s. app_run_simulation_goal zero_gauss
      \<lparr>current_savings = 50000, monthly_contribution = 1000, years = 30, annual_return = 7,
       annual_volatility = 15, inflation_rate = 5 / 2, goal_amount = 1500000,
       n_simulations = 10000\<rparr> NaN = Inr (r, s))"
proof -
  let ?p = "\<lparr>current_savings = 50000, monthly_contribution = 1000, years = 30, annual_return = 7,
       annual_volatility = 15, inflation_rate = 5 / 2, goal_amount = 1500000,
       n_simulations = 10000\<rparr>"
  have "(1 + inflation_rate ?p / 100) ^ nat (years ?p) = (41 / 40) ^ 30" by simp
  then have range: "\<bar>(1 + inflation_rate ?p / 100) ^ nat (years ?p)\<bar> < double_overflow"
    using thirty_years_in_range by (simp only:)
  have "real_of_int (years ?p) < double_overflow" by (simp add: double_overflow_def)
  then have c: "completes ?p"
    unfolding completes_def using range by simp
  show ?thesis
    using c run_simulation_completes_iff[of ?p zero_gauss PosInf]
      run_simulation_completes_iff[of ?p zero_gauss NaN]
    by blast
qed

end
